theory Spec2Isabelle
  imports Complex_Main "HOL-Library.Sublist" "HOL-Library.AList"
begin

section \<open>Texts\<close>

text \<open>
  A Python \<open>str\<close> is modelled as a \<open>string\<close>: the list of its characters, each a code
  point below 256. The character classes below are the ones Python uses on that range:
  \<open>str.isspace\<close> (also the class \<open>\s\<close> of \<open>re\<close>), the word characters \<open>\w\<close> of
  \<open>re\<close>, and the line boundaries of \<open>str.splitlines\<close>.
\<close>

definition isspace :: "char \<Rightarrow> bool" where
  "isspace c = (of_char c \<in> {9, 10, 11, 12, 13, 28, 29, 30, 31, 32, 133, 160 :: nat})"

definition isword :: "char \<Rightarrow> bool" where
  "isword c =
     (let n = of_char c :: nat
      in (48 \<le> n \<and> n \<le> 57) \<or> (65 \<le> n \<and> n \<le> 90) \<or> n = 95 \<or> (97 \<le> n \<and> n \<le> 122)
         \<or> n \<in> {170, 178, 179, 181, 185, 186, 188, 189, 190}
         \<or> (192 \<le> n \<and> n \<le> 214) \<or> (216 \<le> n \<and> n \<le> 246) \<or> 248 \<le> n)"

definition islinebreak :: "char \<Rightarrow> bool" where
  "islinebreak c = (of_char c \<in> {10, 11, 12, 13, 28, 29, 30, 133 :: nat})"

definition NL :: string where
  "NL = [CHR 0x0A]"

text \<open>\<open>s.strip()\<close>: whitespace removed at both ends.\<close>

definition strip :: "string \<Rightarrow> string" where
  "strip s = rev (dropWhile isspace (rev (dropWhile isspace s)))"

text \<open>\<open>s.startswith(p)\<close> is \<open>prefix p s\<close>.\<close>

text \<open>The least index at which \<open>sub\<close> occurs in a text, if it occurs.\<close>

fun find_idx :: "string \<Rightarrow> string \<Rightarrow> nat option" where
  "find_idx sub [] = (if sub = [] then Some 0 else None)"
| "find_idx sub (c # cs) =
     (if prefix sub (c # cs) then Some 0 else map_option Suc (find_idx sub cs))"

text \<open>
  \<open>s.find(sub, start)\<close>: the least index not below \<open>start\<close> at which \<open>sub\<close> occurs, or
  \<open>-1\<close>. A negative \<open>start\<close> counts from the end and is clipped at 0.
\<close>

definition str_find :: "string \<Rightarrow> string \<Rightarrow> int \<Rightarrow> int" where
  "str_find s sub start =
     (let n = int (length s);
          i = (if start < 0 then max 0 (start + n) else start)
      in if n < i then - 1
         else (case find_idx sub (drop (nat i) s) of
                 None \<Rightarrow> - 1
               | Some k \<Rightarrow> i + int k))"

text \<open>
  Slice bounds: a negative bound counts from the end, and every bound is clipped to the
  text. \<open>s[a:b]\<close> is \<open>str_slice s a b\<close> and \<open>s[a:]\<close> is \<open>str_slice_from s a\<close>.
\<close>

definition slice_bound :: "string \<Rightarrow> int \<Rightarrow> nat" where
  "slice_bound s i =
     (let n = int (length s) in nat (if i < 0 then max 0 (i + n) else min i n))"

definition str_slice :: "string \<Rightarrow> int \<Rightarrow> int \<Rightarrow> string" where
  "str_slice s a b = drop (slice_bound s a) (take (slice_bound s b) s)"

definition str_slice_from :: "string \<Rightarrow> int \<Rightarrow> string" where
  "str_slice_from s a = drop (slice_bound s a) s"

text \<open>
  \<open>s.splitlines()\<close>: the lines of a text without their boundaries; a carriage return
  followed by a line feed is one boundary, and a text that ends in a boundary has no
  empty last line. The first argument collects the current line, reversed.
\<close>

fun splitlines_from :: "string \<Rightarrow> string \<Rightarrow> string list" where
  "splitlines_from acc [] = (if acc = [] then [] else [rev acc])"
| "splitlines_from acc [c] = (if islinebreak c then [rev acc] else [rev (c # acc)])"
| "splitlines_from acc (c # d # cs) =
     (if c = CHR 0x0D \<and> d = CHR 0x0A then rev acc # splitlines_from [] cs
      else if islinebreak c then rev acc # splitlines_from [] (d # cs)
      else splitlines_from (c # acc) (d # cs))"

definition splitlines :: "string \<Rightarrow> string list" where
  "splitlines s = splitlines_from [] s"

text \<open>\<open>sep.join(xs)\<close>.\<close>

fun join :: "string \<Rightarrow> string list \<Rightarrow> string" where
  "join sep [] = []"
| "join sep [x] = x"
| "join sep (x # y # ys) = x @ sep @ join sep (y # ys)"

text \<open>The decimal text of a natural number, as \<open>str\<close> and an f-string give it.\<close>

fun str_nat :: "nat \<Rightarrow> string" where
  "str_nat n =
     (if n < 10 then [''0123456789'' ! n]
      else str_nat (n div 10) @ [''0123456789'' ! (n mod 10)])"

declare str_nat.simps [simp del]

section \<open>Values and exceptions\<close>

text \<open>
  The values \<open>json.loads\<close> produces. A float is given by the real number it stands for.
  An object is a Python \<open>dict\<close>: an association list with distinct keys, in insertion
  order.
\<close>

datatype json =
    JNull
  | JBool bool
  | JInt int
  | JFloat real
  | JStr string
  | JArr "json list"
  | JObj "(string \<times> json) list"

text \<open>\<open>d.get(k, default)\<close> on a \<open>dict\<close>.\<close>

definition dict_get :: "('k \<times> 'v) list \<Rightarrow> 'k \<Rightarrow> 'v \<Rightarrow> 'v" where
  "dict_get d k dflt = (case map_of d k of None \<Rightarrow> dflt | Some v \<Rightarrow> v)"

text \<open>
  The exceptions a request can meet. \<open>HTTPException\<close> carries its status code and its
  detail, the message the client receives. \<open>JSONDecodeError\<close> and \<open>PyError\<close> (any other
  exception) carry the text \<open>str\<close> gives for them.
\<close>

datatype exn =
    HTTPException (status_code: nat) (detail: string)
  | JSONDecodeError string
  | PyError string

text \<open>
  \<open>str(e)\<close>. What it gives for an \<open>HTTPException\<close> is the web framework's business and is
  a parameter here, a function of the status code and the detail.
\<close>

fun exn_str :: "(nat \<Rightarrow> string \<Rightarrow> string) \<Rightarrow> exn \<Rightarrow> string" where
  "exn_str hs (HTTPException s d) = hs s d"
| "exn_str hs (JSONDecodeError m) = m"
| "exn_str hs (PyError m) = m"

text \<open>
  The framework's current definition, \<open>f"{self.status_code}: {self.detail}"\<close>; older
  releases define no \<open>__str__\<close>, and an exception built from keyword arguments alone then
  has the empty text.
\<close>

definition starlette_str :: "nat \<Rightarrow> string \<Rightarrow> string" where
  "starlette_str s d = str_nat s @ '': '' @ d"

definition starlette_str_old :: "nat \<Rightarrow> string \<Rightarrow> string" where
  "starlette_str_old s d = []"

section \<open>The outside world\<close>

text \<open>
  One request meets the process environment, the LLM client library, the JSON library,
  the file system, the renderer and the response model. Their answers are the fields of
  a record; an answer \<open>Inl e\<close> or \<open>Some e\<close> of an operation is the exception \<open>e\<close> it
  raises.
  \<^item> \<open>http_str\<close>: \<open>str\<close> of an \<open>HTTPException\<close> (see \<open>exn_str\<close>).
  \<^item> \<open>getenv\<close>: \<open>os.getenv\<close>.
  \<^item> \<open>AsyncOpenAI\<close>: building the client from an API key.
  \<^item> \<open>chat_create\<close>: the one call \<open>client.chat.completions.create\<close> of a client built
    from the given key, with the model, the messages (role and content) and the
    temperature; its answer is \<open>response.choices[0].message.content\<close>.
  \<^item> \<open>json_loads\<close>, \<open>json_dumps\<close>: \<open>json.loads\<close> and \<open>json.dumps(..., indent=2)\<close>.
  \<^item> \<open>mkdtemp\<close>: the scratch directory of \<open>tempfile.TemporaryDirectory\<close>.
  \<^item> \<open>write_text\<close>: \<open>Path.write_text\<close> of a path and a text.
  \<^item> \<open>run\<close>: \<open>subprocess.run\<close> of a shell command in a working directory.
  \<^item> \<open>rglob\<close>: the paths under a directory that match a pattern, after the run.
  \<^item> \<open>json_file\<close>: a file after the run: \<open>None\<close> when it does not exist, else what
    opening it and \<open>json.load\<close> give.
  \<^item> \<open>mkdir\<close>, \<open>move\<close>: creating the output directory if it is absent, and moving a
    file (\<open>Path.rename\<close>, \<open>shutil.move\<close>).
  \<^item> \<open>to_float\<close>: what the response model makes of a value given for a field of type
    float: the float, or its validation error.
\<close>

record completed_process =
  returncode :: int
  stdout :: string
  stderr :: string

record world =
  http_str :: "nat \<Rightarrow> string \<Rightarrow> string"
  getenv :: "string \<Rightarrow> string option"
  AsyncOpenAI :: "string option \<Rightarrow> exn option"
  chat_create :: "string option \<Rightarrow> string \<Rightarrow> (string \<times> string) list \<Rightarrow> real \<Rightarrow> exn + string"
  json_loads :: "string \<Rightarrow> exn + json"
  json_dumps :: "json \<Rightarrow> string"
  mkdtemp :: "exn + string"
  write_text :: "string \<Rightarrow> string \<Rightarrow> exn option"
  run :: "string \<Rightarrow> string \<Rightarrow> exn + completed_process"
  rglob :: "string \<Rightarrow> string \<Rightarrow> string list"
  json_file :: "string \<Rightarrow> (exn + json) option"
  mkdir :: "string \<Rightarrow> exn option"
  move :: "string \<Rightarrow> string \<Rightarrow> exn option"
  to_float :: "json \<Rightarrow> exn + real"

section \<open>Requests and responses\<close>

text \<open>
  The request and response models of \<open>main.py\<close> and \<open>server.py\<close>. The fields of
  \<open>UpdateCodeRequest\<close> carry the prefix \<open>upd_\<close>, since \<open>code\<close> is a field of
  \<open>AnimationRequest\<close> already. \<open>generate_code\<close> answers with a plain dictionary of the
  keys \<open>code\<close> and \<open>metadata\<close>, modelled as a pair, and \<open>update_code\<close> with a dictionary of
  the one key \<open>code\<close>, modelled as its value. A float is given by the real number it
  stands for.
\<close>

record CodeGenerationRequest =
  prompt :: string
  api_key :: "string option"

record AnimationRequest =
  code :: string
  quality :: string
  format :: string

record AnimationResponse =
  output_path :: string
  duration :: real

record UpdateCodeRequest =
  upd_code :: string
  upd_properties :: json
  upd_history :: "string list option"

section \<open>generate\_code\<close>

text \<open>\<open>a or b\<close> on an optional text: \<open>None\<close> and the empty text are false.\<close>

definition or_else :: "string option \<Rightarrow> string option \<Rightarrow> string option" where
  "or_else a b = (case a of None \<Rightarrow> b | Some s \<Rightarrow> if s = [] then b else Some s)"

text \<open>The system message of \<open>generate_code\<close> in \<open>main.py\<close>.\<close>

definition system_prompt :: string where
  "system_prompt =
     ''You are a Manim code generator. Generate Manim code based on the user's description.'' @ NL @
     '''' @ NL @
     ''- Always return your response in two blocks:'' @ NL @
     ''  1. A Python code block (```python) with the Manim code.'' @ NL @
     ''     - Always start with 'from manim import *' to import everything from manim.'' @ NL @
     ''     - For any property that should be editable (like font size, color, position, etc.), define a variable at the top (e.g., font_size = 48) make sure to always add position,scaling, rotation and opacity to each manim item, and use it in the code (e.g., font_size=font_size).'' @ NL @
     ''     - Use f-strings only for string properties that should be editable.'' @ NL @
     ''     - Always import all constants, classes, and animations you use, including color constants (e.g., BLUE, RED), animation classes (e.g., Create, Write), and any other required objects from manim.'' @ NL @
     ''  2. A JSON code block (```json) with the metadata for each animation component, including all properties and their types, values, and constraints.'' @ NL @
     ''     - The JSON should match this format:'' @ NL @
     ''       ['' @ NL @
     ''         {'' @ NL @
     ''           'id': 'unique_id','' @ NL @
     ''           'type': 'text|shape|transform','' @ NL @
     ''           'start': start_time,'' @ NL @
     ''           'duration': duration,'' @ NL @
     ''           'properties': {'' @ NL @
     ''             'property_name': {'' @ NL @
     ''               'position': 'x,y,z','' @ NL @
     ''               'scaling': 'x,y,z','' @ NL @
     ''               'rotation': 'x,y,z','' @ NL @
     ''               'opacity': '0.0-1.0','' @ NL @
     ''               'color': 'color_name','' @ NL @
     ''               'type': 'number|string|color|boolean|position','' @ NL @
     ''               'value': value,'' @ NL @
     ''               'min': min_value,  # optional'' @ NL @
     ''               'max': max_value,  # optional'' @ NL @
     ''               'step': step_value  # optional'' @ NL @
     ''               'options': ['option1', 'option2']  # optional'' @ NL @
     ''               'multiline': True  # optional'' @ NL @
     ''               'label': 'Label'  # optional'' @ NL @
     ''             }'' @ NL @
     ''           }'' @ NL @
     ''         }'' @ NL @
     ''       ]'' @ NL @
     ''- Always return both the code and the JSON metadata.''"

text \<open>The system message of \<open>generate_code\<close> in \<open>server.py\<close>.\<close>

definition server_system_prompt :: string where
  "server_system_prompt =
     ''You are a Manim code generator. Generate Manim code based on the user's description.'' @ NL @
     ''Always return your response in a Python code block (```python) with the Manim code.''"

text \<open>
  The code of the response (\<open>main.py\<close> lines 130 to 138, \<open>server.py\<close> lines 68 to 76, the
  same text in both): the slice from \<open>code_start + 8\<close> to the next fence, stripped, and
  cut to start at \<open>from manim import\<close> when that occurs.
\<close>

definition extract_code :: "string \<Rightarrow> exn + string" where
  "extract_code content =
     (let code_start = str_find content ''```python'' 0;
          code_end = str_find content ''```'' (code_start + 8)
      in if code_start = - 1 \<or> code_end = - 1
         then Inl (HTTPException 500 ''Failed to extract code from response'')
         else
           let code = strip (str_slice content (code_start + 8) code_end);
               manim_index = str_find code ''from manim import'' 0
           in Inr (if manim_index \<noteq> - 1 then str_slice_from code manim_index else code))"

text \<open>
  The metadata of the response (\<open>main.py\<close> lines 142 to 151). Only a \<open>JSONDecodeError\<close> is
  caught here; any other exception of the decoder goes on to the handler of the
  endpoint.
\<close>

definition extract_metadata :: "world \<Rightarrow> string \<Rightarrow> exn + json" where
  "extract_metadata w content =
     (let metadata_start = str_find content ''```json'' 0;
          metadata_end = str_find content ''```'' (metadata_start + 7)
      in if metadata_start = - 1 \<or> metadata_end = - 1 then Inr (JArr [])
         else
           (case json_loads w (strip (str_slice content (metadata_start + 7) metadata_end)) of
              Inr metadata \<Rightarrow> Inr metadata
            | Inl (JSONDecodeError m) \<Rightarrow> Inr (JArr [])
            | Inl e \<Rightarrow> Inl e))"

text \<open>The body of the \<open>try\<close> statement of \<open>generate_code\<close> in \<open>main.py\<close>.\<close>

definition generate_code_try :: "world \<Rightarrow> string option \<Rightarrow> CodeGenerationRequest \<Rightarrow> exn + string \<times> json" where
  "generate_code_try w key request =
     (case chat_create w key ''gpt-4o''
             [(''system'', system_prompt), (''user'', prompt request)] (7 / 10) of
        Inl e \<Rightarrow> Inl e
      | Inr content \<Rightarrow>
          (case extract_code content of
             Inl e \<Rightarrow> Inl e
           | Inr c \<Rightarrow>
               (case extract_metadata w content of
                  Inl e \<Rightarrow> Inl e
                | Inr metadata \<Rightarrow> Inr (c, metadata))))"

text \<open>
  \<open>generate_code\<close> of \<open>main.py\<close>. The client is built before the \<open>try\<close> statement, so an
  exception of that step leaves the endpoint as it is. The handler \<open>except Exception\<close>
  catches every exception of the body, the \<open>HTTPException\<close> raised in it included, and
  raises a new one around the text of the caught one.
\<close>

definition generate_code :: "world \<Rightarrow> CodeGenerationRequest \<Rightarrow> exn + string \<times> json" where
  "generate_code w request =
     (let key = or_else (api_key request) (getenv w ''OPENAI_API_KEY'')
      in case AsyncOpenAI w key of
           Some e \<Rightarrow> Inl e
         | None \<Rightarrow>
             (case generate_code_try w key request of
                Inl e \<Rightarrow>
                  Inl (HTTPException 500 (''Failed to generate code: '' @ exn_str (http_str w) e))
              | Inr r \<Rightarrow> Inr r))"

text \<open>\<open>generate_code\<close> of \<open>server.py\<close>: the same steps, without the metadata.\<close>

definition server_generate_code_try :: "world \<Rightarrow> string option \<Rightarrow> CodeGenerationRequest \<Rightarrow> exn + string" where
  "server_generate_code_try w key request =
     (case chat_create w key ''gpt-4o''
             [(''system'', server_system_prompt), (''user'', prompt request)] (7 / 10) of
        Inl e \<Rightarrow> Inl e
      | Inr content \<Rightarrow> extract_code content)"

definition server_generate_code :: "world \<Rightarrow> CodeGenerationRequest \<Rightarrow> exn + string" where
  "server_generate_code w request =
     (let key = or_else (api_key request) (getenv w ''OPENAI_API_KEY'')
      in case AsyncOpenAI w key of
           Some e \<Rightarrow> Inl e
         | None \<Rightarrow>
             (case server_generate_code_try w key request of
                Inl e \<Rightarrow>
                  Inl (HTTPException 500 (''Failed to generate code: '' @ exn_str (http_str w) e))
              | Inr c \<Rightarrow> Inr c))"

section \<open>generate\_animation\<close>

text \<open>
  \<open>re.search(r'class\s+(\w+)\(Scene\):', text)\<close> and its group 1. A match at a given
  place is the word \<open>class\<close>, a run of whitespace, a run of word characters and the text
  \<open>(Scene):\<close>. Both runs are the longest ones there: a word character is no whitespace
  and an opening parenthesis is no word character, so no shorter run can be followed by
  the rest of the pattern. \<open>re.search\<close> takes the leftmost place that has a match.
\<close>

definition scene_match_at :: "string \<Rightarrow> string option" where
  "scene_match_at s =
     (if prefix ''class'' s then
        let after_class = drop 5 s;
            after_space = dropWhile isspace after_class;
            name = takeWhile isword after_space
        in if takeWhile isspace after_class \<noteq> [] \<and> name \<noteq> []
              \<and> prefix ''(Scene):'' (dropWhile isword after_space)
           then Some name else None
      else None)"

fun re_search_scene :: "string \<Rightarrow> string option" where
  "re_search_scene [] = scene_match_at []"
| "re_search_scene (c # cs) =
     (case scene_match_at (c # cs) of
        Some name \<Rightarrow> Some name
      | None \<Rightarrow> re_search_scene cs)"

definition quality_settings :: "(string \<times> string) list" where
  "quality_settings =
     [(''low'', ''-ql''), (''medium'', ''-qm''), (''high'', ''-qh''),
      (''production'', ''-qp''), (''4k'', ''-qk'')]"

text \<open>\<open>Path(a) / b\<close> and \<open>Path(p).name\<close>, on POSIX paths.\<close>

definition path_join :: "string \<Rightarrow> string \<Rightarrow> string" where
  "path_join a b = a @ ''/'' @ b"

definition path_name :: "string \<Rightarrow> string" where
  "path_name p = rev (takeWhile (\<lambda>c. c \<noteq> CHR ''/'') (rev p))"

text \<open>The type name in the \<open>AttributeError\<close> of a value that has no method \<open>get\<close>.\<close>

fun py_type_name :: "json \<Rightarrow> string" where
  "py_type_name JNull = ''NoneType''"
| "py_type_name (JBool b) = ''bool''"
| "py_type_name (JInt n) = ''int''"
| "py_type_name (JFloat x) = ''float''"
| "py_type_name (JStr s) = ''str''"
| "py_type_name (JArr xs) = ''list''"
| "py_type_name (JObj d) = ''dict''"

text \<open>
  The duration (\<open>main.py\<close> lines 210 to 216): 0 when \<open>animation.json\<close> does not exist, else
  the entry \<open>duration\<close> of the decoded file, 0 when it has none.
\<close>

definition read_duration :: "world \<Rightarrow> string \<Rightarrow> exn + json" where
  "read_duration w temp_dir =
     (case json_file w (path_join temp_dir ''animation.json'') of
        None \<Rightarrow> Inr (JInt 0)
      | Some (Inl e) \<Rightarrow> Inl e
      | Some (Inr scene_data) \<Rightarrow>
          (case scene_data of
             JObj d \<Rightarrow> Inr (dict_get d ''duration'' (JInt 0))
           | _ \<Rightarrow>
               Inl (PyError ([CHR 0x27] @ py_type_name scene_data @ [CHR 0x27]
                             @ '' object has no attribute '' @ [CHR 0x27] @ ''get''
                             @ [CHR 0x27]))))"

text \<open>
  The constructor of \<open>AnimationResponse\<close>, whose field \<open>duration\<close> is a float: a float is
  taken as it is and the integer 0 becomes the float 0; what the response model does
  with any other value is \<open>to_float\<close> of the world.
\<close>

definition new_AnimationResponse :: "world \<Rightarrow> string \<Rightarrow> json \<Rightarrow> exn + AnimationResponse" where
  "new_AnimationResponse w path v =
     (case (case v of
              JFloat x \<Rightarrow> Inr x
            | _ \<Rightarrow> if v = JInt 0 then Inr 0 else to_float w v) of
        Inl e \<Rightarrow> Inl e
      | Inr x \<Rightarrow> Inr \<lparr>output_path = path, duration = x\<rparr>)"

text \<open>
  The body of the \<open>try\<close> statement of \<open>generate_animation\<close>. The two files differ in the
  output directory alone, \<open>outputs\<close> in \<open>main.py\<close> and \<open>outputs/temp\<close> in \<open>server.py\<close>.
\<close>

definition generate_animation_try ::
  "world \<Rightarrow> string \<Rightarrow> string \<Rightarrow> string \<Rightarrow> string \<Rightarrow> AnimationRequest \<Rightarrow> exn + AnimationResponse" where
  "generate_animation_try w output_dir temp_dir code_file scene_name request =
     (let cmd = ''manim '' @ dict_get quality_settings (quality request) ''-qm''
                @ '' -o animation '' @ code_file @ '' '' @ scene_name
      in case run w cmd temp_dir of
           Inl e \<Rightarrow> Inl e
         | Inr result \<Rightarrow>
             if returncode result \<noteq> 0
             then Inl (HTTPException 500 (''Manim error: '' @ stderr result))
             else
               (case rglob w temp_dir (''animation*.'' @ format request) of
                  [] \<Rightarrow> Inl (HTTPException 500 ''No output file generated'')
                | output_file # others \<Rightarrow>
                    (case read_duration w temp_dir of
                       Inl e \<Rightarrow> Inl e
                     | Inr v \<Rightarrow>
                         (case mkdir w output_dir of
                            Some e \<Rightarrow> Inl e
                          | None \<Rightarrow>
                              (let final_path = path_join output_dir (path_name output_file)
                               in (case move w output_file final_path of
                                     Some e \<Rightarrow> Inl e
                                   | None \<Rightarrow> new_AnimationResponse w final_path v))))))"

text \<open>
  The endpoint. Creating the scratch directory, writing the code and finding the scene
  class come before the \<open>try\<close> statement: their exceptions leave the endpoint as they
  are. The handler wraps every exception of the body, as in \<open>generate_code\<close>.
\<close>

definition generate_animation_in :: "string \<Rightarrow> world \<Rightarrow> AnimationRequest \<Rightarrow> exn + AnimationResponse" where
  "generate_animation_in output_dir w request =
     (case mkdtemp w of
        Inl e \<Rightarrow> Inl e
      | Inr temp_dir \<Rightarrow>
          (let code_file = path_join temp_dir ''animation.py''
           in (case write_text w code_file (code request) of
                 Some e \<Rightarrow> Inl e
               | None \<Rightarrow>
                   (case re_search_scene (code request) of
                      None \<Rightarrow>
                        Inl (HTTPException 500 ''Could not find a Scene class in the code.'')
                    | Some scene_name \<Rightarrow>
                        if scene_name = []
                        then Inl (HTTPException 500 ''Could not find a Scene class in the code.'')
                        else
                          (case generate_animation_try w output_dir temp_dir code_file
                                  scene_name request of
                             Inl e \<Rightarrow>
                               Inl (HTTPException 500
                                      (''Animation generation failed: ''
                                       @ exn_str (http_str w) e))
                           | Inr r \<Rightarrow> Inr r)))))"

definition generate_animation :: "world \<Rightarrow> AnimationRequest \<Rightarrow> exn + AnimationResponse" where
  "generate_animation = generate_animation_in ''outputs''"

definition server_generate_animation :: "world \<Rightarrow> AnimationRequest \<Rightarrow> exn + AnimationResponse" where
  "server_generate_animation = generate_animation_in ''outputs/temp''"

section \<open>update\_code\<close>

text \<open>The prompt of \<open>update_code\<close> (\<open>main.py\<close> lines 246 to 253).\<close>

definition update_prompt :: "world \<Rightarrow> UpdateCodeRequest \<Rightarrow> string" where
  "update_prompt w request =
     ''You are a Manim code editor. Given the following Manim code and a JSON object of updated property values, update the code so that the property values match the JSON. Only change the values, do not change the structure or add new properties.''
     @ NL @ NL
     @ (case upd_history request of
          None \<Rightarrow> []
        | Some h \<Rightarrow>
            if h = [] then []
            else ''Here is the previous code history for context:'' @ NL
                 @ concat (map (\<lambda>(idx, prev_code).
                                  ''Previous code version '' @ str_nat (idx + 1) @ '':'' @ NL
                                  @ prev_code @ NL @ NL)
                               (enumerate 0 h)))
     @ ''Manim code:'' @ NL @ upd_code request @ NL @ NL
     @ ''Updated properties:'' @ NL @ json_dumps w (upd_properties request) @ NL @ NL
     @ ''Return only the updated Manim code.''"

text \<open>
  The code of the response (\<open>main.py\<close> lines 263 to 274). The loop over the lines stops
  at the first line that, stripped, starts with \<open>from manim import\<close> and keeps the lines
  from there on; with no such line the code stays as it is.
\<close>

definition update_extract :: "string \<Rightarrow> string" where
  "update_extract content =
     (let code_start = str_find content ''```python'' 0;
          code_end = str_find content ''```'' (code_start + 8)
      in if code_start \<noteq> - 1 \<and> code_end \<noteq> - 1
         then
           let c = strip (str_slice content (code_start + 8) code_end);
               kept = dropWhile (\<lambda>line. \<not> prefix ''from manim import'' (strip line))
                        (splitlines c)
           in if kept = [] then c else join NL kept
         else strip content)"

definition update_code_try :: "world \<Rightarrow> string option \<Rightarrow> UpdateCodeRequest \<Rightarrow> exn + string" where
  "update_code_try w key request =
     (case chat_create w key ''gpt-4o'' [(''system'', update_prompt w request)] (2 / 10) of
        Inl e \<Rightarrow> Inl e
      | Inr content \<Rightarrow> Inr (update_extract content))"

definition update_code :: "world \<Rightarrow> UpdateCodeRequest \<Rightarrow> exn + string" where
  "update_code w request =
     (let key = getenv w ''OPENAI_API_KEY''
      in case AsyncOpenAI w key of
           Some e \<Rightarrow> Inl e
         | None \<Rightarrow>
             (case update_code_try w key request of
                Inl e \<Rightarrow>
                  Inl (HTTPException 500 (''Failed to update code: '' @ exn_str (http_str w) e))
              | Inr c \<Rightarrow> Inr c))"

section \<open>A decoder for a fragment of JSON\<close>

text \<open>
  \<open>json.loads\<close> is a parameter of the endpoints (\<open>json_loads\<close> of the world). Concrete
  worlds need a concrete decoder: the following one follows the scanner of the \<open>json\<close>
  module on the texts built from \<open>null\<close>, \<open>true\<close>, \<open>false\<close>, integers, strings without
  escapes, arrays and objects, with blanks, tabs, line feeds and carriage returns
  between the tokens. On these texts it gives the value, or the decode error, that the
  module gives (short of the depth at which the interpreter gives up its recursion). A
  text with a float, an escape in a string or one of the constants \<open>NaN\<close> and
  \<open>Infinity\<close> is outside the fragment, and reported as a decode error too, so the
  decoder stands for the module on texts of the fragment only.
\<close>

definition json_ws :: "char \<Rightarrow> bool" where
  "json_ws c = (c = CHR '' '' \<or> c = CHR 0x09 \<or> c = CHR 0x0A \<or> c = CHR 0x0D)"

definition skip_ws :: "string \<Rightarrow> string" where
  "skip_ws s = dropWhile json_ws s"

definition isdigit :: "char \<Rightarrow> bool" where
  "isdigit c = (48 \<le> (of_char c :: nat) \<and> (of_char c :: nat) \<le> 57)"

text \<open>The text of a string after its opening quote, up to the closing quote.\<close>

fun scan_string :: "string \<Rightarrow> (string \<times> string) option" where
  "scan_string [] = None"
| "scan_string (c # cs) =
     (if c = CHR 0x22 then Some ([], cs)
      else if c = CHR 0x5C \<or> (of_char c :: nat) < 32 then None
      else map_option (\<lambda>(t, r). (c # t, r)) (scan_string cs))"

text \<open>An integer: an optional minus sign, then 0 or a run of digits that starts with 1 to 9.\<close>

definition scan_int :: "string \<Rightarrow> (json \<times> string) option" where
  "scan_int s =
     (let negative = prefix ''-'' s;
          r = (if negative then drop 1 s else s);
          digits = (if prefix ''0'' r then ''0'' else takeWhile isdigit r);
          rest = drop (length digits) r;
          n = foldl (\<lambda>a c. 10 * a + (int (of_char c) - 48)) 0 digits
      in if digits = [] then None
         else if prefix ''.'' rest \<or> prefix ''e'' rest \<or> prefix ''E'' rest then None
         else Some (JInt (if negative then - n else n), rest))"

text \<open>\<open>dict(pairs)\<close>: a later value for a key replaces the earlier one, in its place.\<close>

definition dict_of :: "(string \<times> json) list \<Rightarrow> (string \<times> json) list" where
  "dict_of pairs = foldl (\<lambda>d (k, v). AList.update k v d) [] pairs"

text \<open>
  The scanner. \<open>parse_elements\<close> reads the elements of an array that is not empty, from
  the first element on, and \<open>parse_members\<close> the members of such an object. The first
  argument bounds the depth of the calls; twice the length of the text, and two more,
  is enough for every text.
\<close>

fun parse_value :: "nat \<Rightarrow> string \<Rightarrow> (json \<times> string) option"
  and parse_elements :: "nat \<Rightarrow> string \<Rightarrow> (json list \<times> string) option"
  and parse_members :: "nat \<Rightarrow> string \<Rightarrow> ((string \<times> json) list \<times> string) option"
where
  "parse_value 0 s = None"
| "parse_value (Suc n) s =
     (case s of
        [] \<Rightarrow> None
      | c # cs \<Rightarrow>
          if c = CHR 0x22 then map_option (\<lambda>(t, r). (JStr t, r)) (scan_string cs)
          else if c = CHR ''['' then
            (case skip_ws cs of
               [] \<Rightarrow> None
             | d # ds \<Rightarrow>
                 if d = CHR '']'' then Some (JArr [], ds)
                 else map_option (\<lambda>(vs, r). (JArr vs, r)) (parse_elements n (d # ds)))
          else if c = CHR ''{'' then
            (case skip_ws cs of
               [] \<Rightarrow> None
             | d # ds \<Rightarrow>
                 if d = CHR ''}'' then Some (JObj [], ds)
                 else map_option (\<lambda>(kvs, r). (JObj (dict_of kvs), r))
                        (parse_members n (d # ds)))
          else if prefix ''null'' s then Some (JNull, drop 4 s)
          else if prefix ''true'' s then Some (JBool True, drop 4 s)
          else if prefix ''false'' s then Some (JBool False, drop 5 s)
          else scan_int s)"
| "parse_elements 0 s = None"
| "parse_elements (Suc n) s =
     (case parse_value n s of
        None \<Rightarrow> None
      | Some (v, r) \<Rightarrow>
          (case skip_ws r of
             [] \<Rightarrow> None
           | d # ds \<Rightarrow>
               if d = CHR '','' then
                 map_option (\<lambda>(vs, r'). (v # vs, r')) (parse_elements n (skip_ws ds))
               else if d = CHR '']'' then Some ([v], ds)
               else None))"
| "parse_members 0 s = None"
| "parse_members (Suc n) s =
     (case s of
        [] \<Rightarrow> None
      | c # cs \<Rightarrow>
          if c \<noteq> CHR 0x22 then None
          else
            (case scan_string cs of
               None \<Rightarrow> None
             | Some (k, r) \<Rightarrow>
                 (case skip_ws r of
                    [] \<Rightarrow> None
                  | d # ds \<Rightarrow>
                      if d \<noteq> CHR '':'' then None
                      else
                        (case parse_value n (skip_ws ds) of
                           None \<Rightarrow> None
                         | Some (v, r') \<Rightarrow>
                             (case skip_ws r' of
                                [] \<Rightarrow> None
                              | e # es \<Rightarrow>
                                  if e = CHR '','' then
                                    map_option (\<lambda>(kvs, r''). ((k, v) # kvs, r''))
                                      (parse_members n (skip_ws es))
                                  else if e = CHR ''}'' then Some ([(k, v)], es)
                                  else None)))))"

definition loads_fragment :: "string \<Rightarrow> exn + json" where
  "loads_fragment s =
     (case parse_value (2 * length s + 2) (skip_ws s) of
        None \<Rightarrow> Inl (JSONDecodeError ''Expecting value'')
      | Some (v, r) \<Rightarrow>
          if skip_ws r = [] then Inr v else Inl (JSONDecodeError ''Extra data''))"

section \<open>The invariant of a generation result\<close>

text \<open>
  The invariant as the specification words it, for comparison with what \<open>generate_code\<close>
  returns: the metadata is a sequence of entries; every entry has an \<open>id\<close>, and no two
  entries have the same; the \<open>type\<close> of every entry is one of \<open>text\<close>, \<open>shape\<close> and
  \<open>transform\<close>; its \<open>start\<close> and its \<open>duration\<close> are numbers that are not negative.
\<close>

definition nonneg_number :: "json option \<Rightarrow> bool" where
  "nonneg_number v =
     (case v of Some (JInt n) \<Rightarrow> 0 \<le> n | Some (JFloat x) \<Rightarrow> 0 \<le> x | _ \<Rightarrow> False)"

definition entry_id :: "json \<Rightarrow> json option" where
  "entry_id e = (case e of JObj d \<Rightarrow> map_of d ''id'' | _ \<Rightarrow> None)"

definition entry_ok :: "json \<Rightarrow> bool" where
  "entry_ok e =
     (case e of
        JObj d \<Rightarrow>
          map_of d ''id'' \<noteq> None
          \<and> (case map_of d ''type'' of
                Some (JStr t) \<Rightarrow> t = ''text'' \<or> t = ''shape'' \<or> t = ''transform''
              | _ \<Rightarrow> False)
          \<and> nonneg_number (map_of d ''start'')
          \<and> nonneg_number (map_of d ''duration'')
      | _ \<Rightarrow> False)"

definition metadata_invariant :: "json \<Rightarrow> bool" where
  "metadata_invariant md =
     (case md of
        JArr entries \<Rightarrow> list_all entry_ok entries \<and> distinct (map entry_id entries)
      | _ \<Rightarrow> False)"

section \<open>The specification's view of the responses\<close>

text \<open>
  The Extractor as the specification describes it (section 4.1), for comparison with
  the slices the endpoints take: the first occurrence of the opening fence followed by
  the tag, then the next closing fence after it; the text between the two, stripped,
  or nothing when either fence is absent.
\<close>

definition extractBlock :: "string \<Rightarrow> string \<Rightarrow> string option" where
  "extractBlock text fenceTag =
     (let opening = ''```'' @ fenceTag
      in case find_idx opening text of
           None \<Rightarrow> None
         | Some p \<Rightarrow>
             (let rest = drop (p + length opening) text
              in (case find_idx ''```'' rest of
                    None \<Rightarrow> None
                  | Some q \<Rightarrow> Some (strip (take q rest)))))"

text \<open>
  The situations in which the LLM has answered the one call of an endpoint with a
  text: the client was built without an exception and the call returned the text.
  There is one for \<open>generate_code\<close> of \<open>main.py\<close>, one for \<open>generate_code\<close> of \<open>server.py\<close>
  and one for \<open>update_code\<close>.
\<close>

definition llm_answers :: "world \<Rightarrow> CodeGenerationRequest \<Rightarrow> string \<Rightarrow> bool" where
  "llm_answers w request content =
     (let key = or_else (api_key request) (getenv w ''OPENAI_API_KEY'')
      in AsyncOpenAI w key = None
         \<and> chat_create w key ''gpt-4o''
              [(''system'', system_prompt), (''user'', prompt request)] (7 / 10) = Inr content)"

definition server_llm_answers :: "world \<Rightarrow> CodeGenerationRequest \<Rightarrow> string \<Rightarrow> bool" where
  "server_llm_answers w request content =
     (let key = or_else (api_key request) (getenv w ''OPENAI_API_KEY'')
      in AsyncOpenAI w key = None
         \<and> chat_create w key ''gpt-4o''
              [(''system'', server_system_prompt), (''user'', prompt request)] (7 / 10)
             = Inr content)"

definition update_llm_answers :: "world \<Rightarrow> UpdateCodeRequest \<Rightarrow> string \<Rightarrow> bool" where
  "update_llm_answers w request content =
     (let key = getenv w ''OPENAI_API_KEY''
      in AsyncOpenAI w key = None
         \<and> chat_create w key ''gpt-4o'' [(''system'', update_prompt w request)] (2 / 10)
             = Inr content)"

text \<open>Whether the decoder has raised a \<open>JSONDecodeError\<close>.\<close>

fun is_decode_error :: "exn + json \<Rightarrow> bool" where
  "is_decode_error (Inl (JSONDecodeError m)) = True"
| "is_decode_error r = False"

section \<open>Concrete worlds\<close>

text \<open>
  A world in which every operation succeeds: no key in the environment, an LLM that
  answers with the empty text, a renderer that exits with 0 and leaves no file.
  The worlds of the examples below differ from it in single fields.
\<close>

definition plain_world :: world where
  "plain_world =
     \<lparr>http_str = starlette_str,
      getenv = (\<lambda>name. None),
      AsyncOpenAI = (\<lambda>key. None),
      chat_create = (\<lambda>key model messages temperature. Inr []),
      json_loads = loads_fragment,
      json_dumps = (\<lambda>v. ''{}''),
      mkdtemp = Inr ''/tmp/tmpabc'',
      write_text = (\<lambda>path text. None),
      run = (\<lambda>cmd cwd. Inr \<lparr>returncode = 0, stdout = [], stderr = []\<rparr>),
      rglob = (\<lambda>dir pattern. []),
      json_file = (\<lambda>path. None),
      mkdir = (\<lambda>path. None),
      move = (\<lambda>src dst. None),
      to_float = (\<lambda>v. Inl (PyError ''value is not a valid float''))\<rparr>"

text \<open>The world in which the LLM answers every call with the given text.\<close>

definition answering :: "string \<Rightarrow> world" where
  "answering content =
     plain_world\<lparr>chat_create := (\<lambda>key model messages temperature. Inr content)\<rparr>"

text \<open>
  Answers of the LLM for the examples: a block with a comment before the import line, a
  block without an import line, a block followed by the metadata of the specification's
  round trip scenario, and a block followed by metadata that breaks every part of the
  invariant.
\<close>

definition commented_answer :: string where
  "commented_answer =
     ''```python'' @ NL @ ''# a scene'' @ NL @ ''from manim import *'' @ NL @ ''```''"

definition unmarked_answer :: string where
  "unmarked_answer = ''```python'' @ NL @ ''x = 1'' @ NL @ ''```''"

definition round_trip_answer :: string where
  \<open>round_trip_answer =
     ''```python'' @ NL @ ''from manim import *'' @ NL @ ''font_size = 48'' @ NL @ ''```'' @ NL
     @ ''```json'' @ NL
     @ ''[{"id":"t1","type":"text","start":0,"duration":2,"properties":{"font_size":{"type":"number","value":48}}}]''
     @ NL @ ''```''\<close>

definition round_trip_metadata :: json where
  "round_trip_metadata =
     JArr [JObj [(''id'', JStr ''t1''), (''type'', JStr ''text''), (''start'', JInt 0),
                 (''duration'', JInt 2),
                 (''properties'',
                  JObj [(''font_size'',
                         JObj [(''type'', JStr ''number''), (''value'', JInt 48)])])]]"

definition unchecked_answer :: string where
  \<open>unchecked_answer =
     ''```python'' @ NL @ ''from manim import *'' @ NL @ ''```'' @ NL
     @ ''```json'' @ NL
     @ ''[{"id": "a", "type": "video", "start": -1, "duration": 2}, {"id": "a", "type": "text", "start": 0, "duration": -3}]''
     @ NL @ ''```''\<close>

definition unchecked_metadata :: json where
  "unchecked_metadata =
     JArr [JObj [(''id'', JStr ''a''), (''type'', JStr ''video''), (''start'', JInt (- 1)),
                 (''duration'', JInt 2)],
           JObj [(''id'', JStr ''a''), (''type'', JStr ''text''), (''start'', JInt 0),
                 (''duration'', JInt (- 3))]]"

definition circle_request :: CodeGenerationRequest where
  "circle_request = \<lparr>prompt = ''a blue circle'', api_key = None\<rparr>"

text \<open>
  Two more answers, with a metadata block that has no closing fence and with one whose
  text is not JSON, and a request of \<open>update_code\<close>.
\<close>

definition edit_request :: UpdateCodeRequest where
  "edit_request = \<lparr>upd_code = ''x = 1'', upd_properties = JObj [(''x'', JInt 2)],
                    upd_history = Some [''x = 0'']\<rparr>"

definition unterminated_json_answer :: string where
  "unterminated_json_answer = commented_answer @ NL @ ''```json'' @ NL @ ''[]''"

definition invalid_json_answer :: string where
  "invalid_json_answer = commented_answer @ NL @ ''```json'' @ NL @ ''[1,'' @ NL @ ''```''"

text \<open>
  A request to render a scene, the world in which the renderer exits with 1 after
  writing \<open>boom\<close> to its standard error, and the world in which it leaves a video and no
  \<open>animation.json\<close>.
\<close>

definition scene_request :: AnimationRequest where
  "scene_request =
     \<lparr>code = ''class Foo(Scene):'' @ NL @ ''    pass'', quality = ''low'', format = ''mp4''\<rparr>"

definition failing_renderer :: world where
  "failing_renderer =
     plain_world\<lparr>run := (\<lambda>cmd cwd. Inr \<lparr>returncode = 1, stdout = [], stderr = ''boom''\<rparr>)\<rparr>"

definition rendering_world :: world where
  "rendering_world =
     plain_world\<lparr>rglob := (\<lambda>dir pattern.
        if pattern = ''animation*.mp4''
        then [dir @ ''/media/videos/animation/480p15/animation.mp4''] else [])\<rparr>"

text \<open>
  The decoder under the recursion limit of the interpreter. The scanner of the \<open>json\<close>
  module calls itself once for every bracket a text opens at its start, before it
  reads on; at the limit it raises a \<open>RecursionError\<close>, which is no \<open>JSONDecodeError\<close>.
  Nesting that begins further inside a text is not counted here. The limit is 1000
  unless a program changes it.
\<close>

definition opening_depth :: "string \<Rightarrow> nat" where
  "opening_depth s = length (takeWhile (\<lambda>c. c = CHR ''['') s)"

definition loads_limited :: "nat \<Rightarrow> string \<Rightarrow> exn + json" where
  "loads_limited limit s =
     (if limit \<le> opening_depth (skip_ws s)
      then Inl (PyError
             ''maximum recursion depth exceeded while decoding a JSON array from a unicode string'')
      else loads_fragment s)"

text \<open>
  An answer whose json block opens 1000 brackets and closes none, and the world in
  which the LLM gives it and the decoder has the limit 1000.
\<close>

definition deep_json_answer :: string where
  "deep_json_answer =
     commented_answer @ NL @ ''```json'' @ NL @ replicate 1000 (CHR ''['') @ NL @ ''```''"

definition deep_world :: world where
  "deep_world = (answering deep_json_answer)\<lparr>json_loads := loads_limited 1000\<rparr>"

section \<open>Properties of the text operations\<close>

lemma find_idx_SomeD:
  "find_idx sub s = Some k \<Longrightarrow> prefix sub (drop k s) \<and> k \<le> length s \<and> (\<forall>j<k. \<not> prefix sub (drop j s))"
proof (induction s arbitrary: k)
  case Nil
  then show ?case by (auto split: if_splits)
next
  case (Cons c cs)
  show ?case
  proof (cases "prefix sub (c # cs)")
    case True
    with Cons.prems show ?thesis by simp
  next
    case False
    with Cons.prems obtain k' where k': "find_idx sub cs = Some k'" "k = Suc k'"
      by auto
    from Cons.IH[OF k'(1)] False k'(2) show ?thesis
      by (auto simp: less_Suc_eq_0_disj)
  qed
qed

lemma find_idx_NoneD:
  "find_idx sub s = None \<Longrightarrow> j \<le> length s \<Longrightarrow> \<not> prefix sub (drop j s)"
proof (induction s arbitrary: j)
  case Nil
  then show ?case by (auto split: if_splits)
next
  case (Cons c cs)
  then show ?case by (cases j) (auto split: if_splits)
qed

lemma find_idx_first:
  "prefix sub (drop k s) \<Longrightarrow> k \<le> length s \<Longrightarrow> \<forall>j<k. \<not> prefix sub (drop j s) \<Longrightarrow> find_idx sub s = Some k"
proof (induction s arbitrary: k)
  case Nil
  then show ?case by auto
next
  case (Cons c cs)
  show ?case
  proof (cases k)
    case 0
    with Cons.prems show ?thesis by simp
  next
    case (Suc k')
    with Cons.prems have "\<not> prefix sub (c # cs)" by fastforce
    moreover have "find_idx sub cs = Some k'"
    proof (rule Cons.IH)
      show "prefix sub (drop k' cs)" using Cons.prems Suc by simp
      show "k' \<le> length cs" using Cons.prems Suc by simp
      show "\<forall>j<k'. \<not> prefix sub (drop j cs)"
      proof (intro allI impI)
        fix j assume "j < k'"
        then have "Suc j < k" using Suc by simp
        with Cons.prems have "\<not> prefix sub (drop (Suc j) (c # cs))" by blast
        then show "\<not> prefix sub (drop j cs)" by simp
      qed
    qed
    ultimately show ?thesis using Suc by simp
  qed
qed

lemma find_idx_skip:
  "sub \<noteq> [] \<Longrightarrow> \<forall>c\<in>set xs. c \<noteq> hd sub \<Longrightarrow> find_idx sub (xs @ ys) = map_option (\<lambda>k. length xs + k) (find_idx sub ys)"
proof (induction xs)
  case Nil
  then show ?case by (simp add: option.map_ident)
next
  case (Cons x xs)
  then have "\<not> prefix sub (x # xs @ ys)"
    by (cases sub) auto
  with Cons show ?case by (simp add: option.map_comp comp_def)
qed

lemma dropWhile_snoc:
  "dropWhile P (ys @ [x]) = (if \<forall>y\<in>set ys. P y then dropWhile P [x] else dropWhile P ys @ [x])"
  by (induction ys) auto

lemma dropWhile_all: "\<forall>y\<in>set ys. P y \<Longrightarrow> dropWhile P ys = []"
  by (induction ys) auto

lemma strip_commute:
  "rev (dropWhile P (rev (dropWhile P s))) = dropWhile P (rev (dropWhile P (rev s)))"
proof (induction s)
  case Nil
  show ?case by simp
next
  case (Cons x xs)
  show ?case
  proof (cases "P x")
    case True
    show ?thesis
    proof (cases "\<forall>y\<in>set xs. P y")
      case all: True
      with True show ?thesis by (simp add: dropWhile_snoc dropWhile_all)
    next
      case False
      with True Cons show ?thesis by (auto simp: dropWhile_snoc)
    qed
  next
    case False
    then show ?thesis by (auto simp: dropWhile_snoc)
  qed
qed

lemma strip_alt: "strip s = dropWhile isspace (rev (dropWhile isspace (rev s)))"
  unfolding strip_def by (rule strip_commute)

lemma strip_non_space_head:
  "\<not> isspace c \<Longrightarrow> strip (c # x) = c # rev (dropWhile isspace (rev x))"
  by (simp add: strip_def dropWhile_snoc)

lemma extract_indices:
  assumes p: "find_idx ''```python'' content = Some p"
    and q: "find_idx ''```'' (drop (p + 9) content) = Some q"
  shows "str_find content ''```python'' 0 = int p"
    and "str_find content ''```'' (int p + 8) = int (p + 9 + q)"
    and "str_slice content (int p + 8) (int (p + 9 + q)) = CHR ''n'' # take q (drop (p + 9) content)"
proof -
  from find_idx_SomeD[OF p] obtain rest where rest: "drop p content = ''```python'' @ rest" and ple: "p \<le> length content"
    by (auto simp: prefix_def)
  have len: "p + 9 \<le> length content"
  proof -
    have "length (drop p content) = 9 + length rest" by (simp add: rest)
    then show ?thesis by simp
  qed
  have d8: "drop (p + 8) content = CHR ''n'' # rest"
  proof -
    have "drop (p + 8) content = drop 8 (drop p content)" by (simp add: add.commute)
    then show ?thesis by (simp add: rest)
  qed
  have d9: "drop (p + 9) content = rest"
  proof -
    have "drop (p + 9) content = drop 9 (drop p content)" by (simp add: add.commute)
    then show ?thesis by (simp add: rest)
  qed
  show "str_find content ''```python'' 0 = int p"
    by (simp add: str_find_def p)
  from q d9 have q': "find_idx ''```'' rest = Some q" by simp
  have nat8: "nat (int p + 8) = p + 8" by simp
  show "str_find content ''```'' (int p + 8) = int (p + 9 + q)"
    using len by (simp add: str_find_def Let_def nat8 d8 q' del: drop_Suc_Cons)
  from find_idx_SomeD[OF q'] have qle: "q \<le> length rest" by simp
  have lr: "length rest = length content - (p + 9)"
    using d9[symmetric] by simp
  have b1: "slice_bound content (int p + 8) = p + 8"
    using len by (simp add: slice_bound_def)
  have b2: "slice_bound content (int p + 9 + int q) = p + 9 + q"
    using len qle lr by (simp add: slice_bound_def)
  have "drop (p + 8) (take (p + 9 + q) content) = take (Suc q) (drop (p + 8) content)"
    by (simp add: drop_take)
  also have "\<dots> = CHR ''n'' # take q rest" by (simp add: d8)
  finally show "str_slice content (int p + 8) (int (p + 9 + q)) = CHR ''n'' # take q (drop (p + 9) content)"
    by (simp add: str_slice_def b1 b2 d9)
qed

section \<open>Properties of the endpoints\<close>



text \<open>
  C10: a request of \<open>generate_code\<close> whose \<open>api_key\<close> is the empty text is treated as a
  request without a key: the key of the client is the default of the process
  environment, the endpoint answers as it does for the request without a key, for
  every prompt, in \<open>main.py\<close> and in \<open>server.py\<close>, and the call to the LLM is the call
  of the client built from that default.
\<close>

theorem empty_api_key_uses_default:
  "or_else (Some []) (getenv w ''OPENAI_API_KEY'') = getenv w ''OPENAI_API_KEY''
   \<and> or_else None (getenv w ''OPENAI_API_KEY'') = getenv w ''OPENAI_API_KEY''
   \<and> generate_code w \<lparr>prompt = p, api_key = Some []\<rparr> = generate_code w \<lparr>prompt = p, api_key = None\<rparr>
   \<and> server_generate_code w \<lparr>prompt = p, api_key = Some []\<rparr>
       = server_generate_code w \<lparr>prompt = p, api_key = None\<rparr>
   \<and> llm_answers w \<lparr>prompt = p, api_key = Some []\<rparr> content
       = (AsyncOpenAI w (getenv w ''OPENAI_API_KEY'') = None
          \<and> chat_create w (getenv w ''OPENAI_API_KEY'') ''gpt-4o''
               [(''system'', system_prompt), (''user'', p)] (7 / 10) = Inr content)"
proof -
  have main: "generate_code_try w k \<lparr>prompt = p, api_key = Some []\<rparr>
                = generate_code_try w k \<lparr>prompt = p, api_key = None\<rparr>" for k
    by (simp add: generate_code_try_def)
  have server: "server_generate_code_try w k \<lparr>prompt = p, api_key = Some []\<rparr>
                  = server_generate_code_try w k \<lparr>prompt = p, api_key = None\<rparr>" for k
    by (simp add: server_generate_code_try_def)
  show ?thesis
    by (simp add: Let_def or_else_def generate_code_def server_generate_code_def main server
          llm_answers_def split: option.split)
qed

text \<open>
  What the matcher computes, said without it: a match at the start of a text is the word
  \<open>class\<close>, whitespace, a name of word characters and \<open>(Scene):\<close>; the search gives the
  name of the match at the least place that has one.
\<close>

lemma isword_not_isspace: "isword c \<Longrightarrow> \<not> isspace c"
  by (auto simp: isword_def isspace_def Let_def)

lemma paren_not_isword: "\<not> isword (CHR ''('')"
  by (simp add: isword_def)

lemma scene_match_at_iff:
  "scene_match_at s = Some name \<longleftrightarrow>
     (\<exists>ws rest. s = ''class'' @ ws @ name @ ''(Scene):'' @ rest
        \<and> ws \<noteq> [] \<and> (\<forall>c\<in>set ws. isspace c)
        \<and> name \<noteq> [] \<and> (\<forall>c\<in>set name. isword c))"
proof
  assume m: "scene_match_at s = Some name"
  define r1 where "r1 = drop 5 s"
  define r2 where "r2 = dropWhile isspace r1"
  from m have pre: "prefix ''class'' s"
    and ws: "takeWhile isspace r1 \<noteq> []"
    and name: "name = takeWhile isword r2" "name \<noteq> []"
    and tok: "prefix ''(Scene):'' (dropWhile isword r2)"
    by (auto simp: scene_match_at_def Let_def r1_def r2_def split: if_splits)
  from pre have s: "s = ''class'' @ r1"
    by (auto simp: prefix_def r1_def)
  from tok obtain rest where rest: "dropWhile isword r2 = ''(Scene):'' @ rest"
    by (auto simp: prefix_def)
  have "r1 = takeWhile isspace r1 @ r2"
    by (simp add: r2_def)
  moreover have "r2 = name @ ''(Scene):'' @ rest"
    using takeWhile_dropWhile_id[of isword r2] by (simp add: name(1) rest)
  ultimately have "s = ''class'' @ takeWhile isspace r1 @ name @ ''(Scene):'' @ rest"
    using s by simp
  moreover have "\<forall>c\<in>set (takeWhile isspace r1). isspace c"
    by (auto dest: set_takeWhileD)
  moreover have "\<forall>c\<in>set name. isword c"
    unfolding name(1) by (auto dest: set_takeWhileD)
  ultimately show "\<exists>ws rest. s = ''class'' @ ws @ name @ ''(Scene):'' @ rest
        \<and> ws \<noteq> [] \<and> (\<forall>c\<in>set ws. isspace c)
        \<and> name \<noteq> [] \<and> (\<forall>c\<in>set name. isword c)"
    using ws name(2) by blast
next
  assume "\<exists>ws rest. s = ''class'' @ ws @ name @ ''(Scene):'' @ rest
        \<and> ws \<noteq> [] \<and> (\<forall>c\<in>set ws. isspace c)
        \<and> name \<noteq> [] \<and> (\<forall>c\<in>set name. isword c)"
  then obtain ws rest where s: "s = ''class'' @ ws @ name @ ''(Scene):'' @ rest"
    and ws: "ws \<noteq> []" "\<forall>c\<in>set ws. isspace c"
    and name: "name \<noteq> []" "\<forall>c\<in>set name. isword c"
    by blast
  from name obtain n ns where n: "name = n # ns" "\<not> isspace n"
    by (cases name) (auto simp: isword_not_isspace)
  have d5: "drop 5 s = ws @ name @ ''(Scene):'' @ rest"
    by (simp add: s)
  have tw: "takeWhile isspace (ws @ name @ ''(Scene):'' @ rest) = ws"
    using ws(2) n by simp
  have dw: "dropWhile isspace (ws @ name @ ''(Scene):'' @ rest) = name @ ''(Scene):'' @ rest"
    using ws(2) n by simp
  have tn: "takeWhile isword (name @ ''(Scene):'' @ rest) = name"
    using name(2) paren_not_isword by simp
  have dn: "dropWhile isword (name @ ''(Scene):'' @ rest) = ''(Scene):'' @ rest"
    using name(2) paren_not_isword by simp
  have "prefix ''class'' s" by (simp add: s)
  then show "scene_match_at s = Some name"
    unfolding scene_match_at_def Let_def d5 tw dw tn dn
    using ws(1) name(1) by simp
qed

lemma re_search_scene_leftmost:
  "re_search_scene s = Some name \<longleftrightarrow>
     (\<exists>i\<le>length s. scene_match_at (drop i s) = Some name
        \<and> (\<forall>j<i. scene_match_at (drop j s) = None))"
proof (induction s)
  case Nil
  show ?case by simp
next
  case (Cons c cs)
  show ?case
  proof (cases "scene_match_at (c # cs)")
    case (Some n)
    have "(\<exists>i\<le>length (c # cs). scene_match_at (drop i (c # cs)) = Some name
        \<and> (\<forall>j<i. scene_match_at (drop j (c # cs)) = None)) \<longleftrightarrow> n = name"
    proof
      assume "\<exists>i\<le>length (c # cs). scene_match_at (drop i (c # cs)) = Some name
        \<and> (\<forall>j<i. scene_match_at (drop j (c # cs)) = None)"
      then obtain i where i: "scene_match_at (drop i (c # cs)) = Some name"
        "\<forall>j<i. scene_match_at (drop j (c # cs)) = None"
        by blast
      have "i = 0"
      proof (rule ccontr)
        assume "i \<noteq> 0"
        then have "0 < i" by simp
        with i(2) have "scene_match_at (drop 0 (c # cs)) = None" by blast
        with Some show False by simp
      qed
      with i(1) Some show "n = name" by simp
    next
      assume "n = name"
      with Some have "scene_match_at (drop 0 (c # cs)) = Some name" by simp
      then show "\<exists>i\<le>length (c # cs). scene_match_at (drop i (c # cs)) = Some name
        \<and> (\<forall>j<i. scene_match_at (drop j (c # cs)) = None)"
        by blast
    qed
    with Some show ?thesis by simp
  next
    case None
    have "(\<exists>i\<le>length (c # cs). scene_match_at (drop i (c # cs)) = Some name
        \<and> (\<forall>j<i. scene_match_at (drop j (c # cs)) = None))
      \<longleftrightarrow> (\<exists>i\<le>length cs. scene_match_at (drop i cs) = Some name
        \<and> (\<forall>j<i. scene_match_at (drop j cs) = None))"
    proof
      assume "\<exists>i\<le>length (c # cs). scene_match_at (drop i (c # cs)) = Some name
        \<and> (\<forall>j<i. scene_match_at (drop j (c # cs)) = None)"
      then obtain i where i: "i \<le> length (c # cs)"
        "scene_match_at (drop i (c # cs)) = Some name"
        "\<forall>j<i. scene_match_at (drop j (c # cs)) = None"
        by blast
      from i(2) None obtain k where k: "i = Suc k" by (cases i) auto
      have "\<forall>j<k. scene_match_at (drop j cs) = None"
      proof (intro allI impI)
        fix j assume "j < k"
        then have "Suc j < i" using k by simp
        with i(3) have "scene_match_at (drop (Suc j) (c # cs)) = None" by blast
        then show "scene_match_at (drop j cs) = None" by simp
      qed
      with i(1,2) k show "\<exists>i\<le>length cs. scene_match_at (drop i cs) = Some name
        \<and> (\<forall>j<i. scene_match_at (drop j cs) = None)"
        by auto
    next
      assume "\<exists>i\<le>length cs. scene_match_at (drop i cs) = Some name
        \<and> (\<forall>j<i. scene_match_at (drop j cs) = None)"
      then obtain i where i: "i \<le> length cs" "scene_match_at (drop i cs) = Some name"
        "\<forall>j<i. scene_match_at (drop j cs) = None"
        by blast
      have "\<forall>j<Suc i. scene_match_at (drop j (c # cs)) = None"
      proof (intro allI impI)
        fix j assume "j < Suc i"
        then show "scene_match_at (drop j (c # cs)) = None"
          using None i(3) by (cases j) auto
      qed
      with i(1,2) have "Suc i \<le> length (c # cs) \<and> scene_match_at (drop (Suc i) (c # cs)) = Some name
        \<and> (\<forall>j<Suc i. scene_match_at (drop j (c # cs)) = None)"
        by simp
      then show "\<exists>i\<le>length (c # cs). scene_match_at (drop i (c # cs)) = Some name
        \<and> (\<forall>j<i. scene_match_at (drop j (c # cs)) = None)"
        by blast
    qed
    with None Cons.IH show ?thesis by simp
  qed
qed

lemma dropWhile_as_drop: "dropWhile P xs = drop (length (takeWhile P xs)) xs"
  by (induction xs) auto

lemma scene_match_at_token:
  assumes "scene_match_at s = Some name"
  shows "\<exists>j\<le>length s. prefix ''(Scene):'' (drop j s)"
proof -
  let ?a = "drop 5 s"
  let ?b = "dropWhile isspace ?a"
  let ?c = "dropWhile isword ?b"
  from assms have pre: "prefix ''(Scene):'' ?c"
    by (simp add: scene_match_at_def Let_def split: if_splits)
  have c: "?c = drop (length (takeWhile isword ?b)) ?b"
    by (rule dropWhile_as_drop)
  have b: "?b = drop (length (takeWhile isspace ?a)) ?a"
    by (rule dropWhile_as_drop)
  have "\<exists>j. ?c = drop j s"
    by (metis b c drop_drop)
  then obtain j where j: "?c = drop j s" ..
  have "j \<le> length s"
  proof (rule ccontr)
    assume "\<not> j \<le> length s"
    then have "drop j s = []" by simp
    with pre j show False by simp
  qed
  with pre j show ?thesis by auto
qed

lemma re_search_scene_token:
  "re_search_scene s = Some name \<Longrightarrow> \<exists>j\<le>length s. prefix ''(Scene):'' (drop j s)"
proof (induction s)
  case Nil
  then show ?case by (simp add: scene_match_at_def)
next
  case (Cons c cs)
  show ?case
  proof (cases "scene_match_at (c # cs)")
    case (Some n)
    then show ?thesis by (rule scene_match_at_token)
  next
    case None
    with Cons.prems have "re_search_scene cs = Some name" by simp
    from Cons.IH[OF this] obtain j where "j \<le> length cs" "prefix ''(Scene):'' (drop j cs)"
      by blast
    then have "Suc j \<le> length (c # cs)" "prefix ''(Scene):'' (drop (Suc j) (c # cs))"
      by simp_all
    then show ?thesis by blast
  qed
qed

lemma re_search_scene_no_token:
  assumes "find_idx ''(Scene):'' s = None"
  shows "re_search_scene s = None"
proof (cases "re_search_scene s")
  case None
  then show ?thesis .
next
  case (Some name)
  from re_search_scene_token[OF this] find_idx_NoneD[OF assms] show ?thesis by blast
qed

text \<open>
  C6: for the code text \<open>class Foo(Scene):\<close>, a line feed and \<open>    pass\<close> the resolver
  gives \<open>Foo\<close>; for every code text in which \<open>(Scene):\<close> does not occur it gives
  nothing, and \<open>generate_animation\<close> (of \<open>main.py\<close> and of \<open>server.py\<close>) then fails at once
  with status 500 and the detail that no Scene class was found, once the scratch
  directory exists and the code is written to it.
\<close>

theorem scene_name_resolver:
  "re_search_scene (''class Foo(Scene):'' @ NL @ ''    pass'') = Some ''Foo''
   \<and> (find_idx ''(Scene):'' text = None \<longrightarrow> re_search_scene text = None)
   \<and> (find_idx ''(Scene):'' text = None \<and> mkdtemp w = Inr dir
        \<and> write_text w (path_join dir ''animation.py'') text = None \<longrightarrow>
        generate_animation w \<lparr>code = text, quality = q, format = f\<rparr>
          = Inl (HTTPException 500 ''Could not find a Scene class in the code.'')
        \<and> server_generate_animation w \<lparr>code = text, quality = q, format = f\<rparr>
          = Inl (HTTPException 500 ''Could not find a Scene class in the code.''))"
proof (intro conjI impI)
  show "re_search_scene (''class Foo(Scene):'' @ NL @ ''    pass'') = Some ''Foo''"
    by (simp add: NL_def scene_match_at_def isspace_def isword_def)
next
  assume "find_idx ''(Scene):'' text = None"
  then show "re_search_scene text = None" by (rule re_search_scene_no_token)
next
  assume a: "find_idx ''(Scene):'' text = None \<and> mkdtemp w = Inr dir
        \<and> write_text w (path_join dir ''animation.py'') text = None"
  then have "re_search_scene text = None" by (simp add: re_search_scene_no_token)
  with a show "generate_animation w \<lparr>code = text, quality = q, format = f\<rparr>
          = Inl (HTTPException 500 ''Could not find a Scene class in the code.'')"
    by (simp add: generate_animation_def generate_animation_in_def)
next
  assume a: "find_idx ''(Scene):'' text = None \<and> mkdtemp w = Inr dir
        \<and> write_text w (path_join dir ''animation.py'') text = None"
  then have "re_search_scene text = None" by (simp add: re_search_scene_no_token)
  with a show "server_generate_animation w \<lparr>code = text, quality = q, format = f\<rparr>
          = Inl (HTTPException 500 ''Could not find a Scene class in the code.'')"
    by (simp add: server_generate_animation_def generate_animation_in_def)
qed

theorem scene_name_resolver_witness:
  "find_idx ''(Scene):'' ''x = 1'' = None
   \<and> mkdtemp plain_world = Inr ''/tmp/tmpabc''
   \<and> write_text plain_world (path_join ''/tmp/tmpabc'' ''animation.py'') ''x = 1'' = None
   \<and> re_search_scene ''x = 1'' = None
   \<and> generate_animation plain_world \<lparr>code = ''x = 1'', quality = ''low'', format = ''mp4''\<rparr>
       = Inl (HTTPException 500 ''Could not find a Scene class in the code.'')
   \<and> server_generate_animation plain_world
         \<lparr>code = ''x = 1'', quality = ''low'', format = ''mp4''\<rparr>
       = Inl (HTTPException 500 ''Could not find a Scene class in the code.'')"
proof -
  have h: "find_idx ''(Scene):'' ''x = 1'' = None
           \<and> mkdtemp plain_world = Inr ''/tmp/tmpabc''
           \<and> write_text plain_world (path_join ''/tmp/tmpabc'' ''animation.py'') ''x = 1'' = None"
    by (simp add: plain_world_def)
  show ?thesis
    using h scene_name_resolver [of "''x = 1''" plain_world "''/tmp/tmpabc''" "''low''" "''mp4''"]
    by blast
qed

section \<open>Properties of the extraction\<close>

lemma str_find_from_start:
  "str_find s sub 0 = (case find_idx sub s of None \<Rightarrow> - 1 | Some k \<Rightarrow> int k)"
  by (simp add: str_find_def split: option.split)

lemma str_slice_from_nat:
  "k \<le> length s \<Longrightarrow> str_slice_from s (int k) = drop k s"
  by (simp add: str_slice_from_def slice_bound_def)

lemma strip_after_char:
  assumes "\<not> isspace c"
  shows "strip (c # x) = (c # takeWhile isspace (rev (dropWhile isspace (rev x)))) @ strip x"
proof -
  have "strip (c # x) = c # rev (dropWhile isspace (rev x))"
    using assms by (rule strip_non_space_head)
  also have "rev (dropWhile isspace (rev x))
      = takeWhile isspace (rev (dropWhile isspace (rev x))) @ strip x"
    by (simp add: strip_alt)
  finally show ?thesis by simp
qed

lemma extract_code_block:
  assumes p: "find_idx ''```python'' content = Some p"
    and q: "find_idx ''```'' (drop (p + 9) content) = Some q"
    and m: "find_idx ''from manim import'' (strip (take q (drop (p + 9) content))) = Some m"
  shows "extract_code content = Inr (drop m (strip (take q (drop (p + 9) content))))"
proof -
  define inner where "inner = take q (drop (p + 9) content)"
  define ws where "ws = takeWhile isspace (rev (dropWhile isspace (rev inner)))"
  define code0 where "code0 = strip (CHR ''n'' # inner)"
  note idx = extract_indices[OF p q]
  have code0: "code0 = (CHR ''n'' # ws) @ strip inner"
    unfolding code0_def ws_def by (rule strip_after_char) (simp add: isspace_def)
  have skip: "\<forall>c\<in>set (CHR ''n'' # ws). c \<noteq> hd ''from manim import''"
  proof
    fix c assume "c \<in> set (CHR ''n'' # ws)"
    then consider "c = CHR ''n''" | "c \<in> set ws" by auto
    then show "c \<noteq> hd ''from manim import''"
    proof cases
      case 1
      then show ?thesis by simp
    next
      case 2
      then have "isspace c" unfolding ws_def by (auto dest: set_takeWhileD)
      then show ?thesis by (auto simp: isspace_def)
    qed
  qed
  have found: "find_idx ''from manim import'' code0 = Some (length (CHR ''n'' # ws) + m)"
    unfolding code0
    using find_idx_skip[OF _ skip, of "strip inner"] m
    by (simp add: inner_def)
  from find_idx_SomeD[OF found] have le: "length (CHR ''n'' # ws) + m \<le> length code0"
    by simp
  have sl: "str_slice_from code0 (int (length (CHR ''n'' # ws) + m)) = drop m (strip inner)"
    by (subst str_slice_from_nat[OF le]) (simp add: code0)
  have start: "str_find content ''```python'' 0 = int p" by (rule idx(1))
  have stop: "str_find content ''```'' (int p + 8) = int (p + 9 + q)" by (rule idx(2))
  have slice: "strip (str_slice content (int p + 8) (int (p + 9 + q))) = code0"
    by (simp only: idx(3) code0_def inner_def)
  have mi: "str_find code0 ''from manim import'' 0 = int (length (CHR ''n'' # ws) + m)"
    by (simp only: str_find_from_start found option.case)
  show ?thesis
    unfolding extract_code_def Let_def start stop slice mi sl[unfolded inner_def]
    by simp
qed

lemma extract_code_no_fence:
  assumes "find_idx ''```python'' content = None"
  shows "extract_code content = Inl (HTTPException 500 ''Failed to extract code from response'')"
  using assms by (simp add: extract_code_def str_find_from_start Let_def)

lemma unterminated_indices:
  assumes p: "find_idx ''```python'' content = Some p"
    and q: "find_idx ''```'' (drop (p + 9) content) = None"
  shows "str_find content ''```python'' 0 = int p"
    and "str_find content ''```'' (int p + 8) = - 1"
proof -
  from find_idx_SomeD[OF p] obtain rest where rest: "drop p content = ''```python'' @ rest"
    by (auto simp: prefix_def)
  have len: "p + 9 \<le> length content"
  proof -
    have "length (drop p content) = 9 + length rest" by (simp add: rest)
    then show ?thesis by simp
  qed
  have d8: "drop (p + 8) content = CHR ''n'' # rest"
  proof -
    have "drop (p + 8) content = drop 8 (drop p content)" by (simp add: add.commute)
    then show ?thesis by (simp add: rest)
  qed
  have d9: "drop (p + 9) content = rest"
  proof -
    have "drop (p + 9) content = drop 9 (drop p content)" by (simp add: add.commute)
    then show ?thesis by (simp add: rest)
  qed
  show "str_find content ''```python'' 0 = int p"
    by (simp add: str_find_def p)
  from q d9 have q': "find_idx ''```'' rest = None" by simp
  have nat8: "nat (int p + 8) = p + 8" by simp
  show "str_find content ''```'' (int p + 8) = - 1"
    using len by (simp add: str_find_def Let_def nat8 d8 q' del: drop_Suc_Cons)
qed

lemma extract_code_unterminated:
  assumes p: "find_idx ''```python'' content = Some p"
    and q: "find_idx ''```'' (drop (p + 9) content) = None"
  shows "extract_code content = Inl (HTTPException 500 ''Failed to extract code from response'')"
  unfolding extract_code_def Let_def unterminated_indices[OF p q] by simp

lemma extractBlock_python:
  "extractBlock content ''python'' =
     (case find_idx ''```python'' content of
        None \<Rightarrow> None
      | Some p \<Rightarrow>
          (case find_idx ''```'' (drop (p + 9) content) of
             None \<Rightarrow> None
           | Some q \<Rightarrow> Some (strip (take q (drop (p + 9) content)))))"
proof -
  have op: "''```'' @ ''python'' = ''```python''" by simp
  have len: "length ''```python'' = 9" by simp
  show ?thesis unfolding extractBlock_def Let_def op len ..
qed

lemma extractBlock_json:
  "extractBlock content ''json'' =
     (case find_idx ''```json'' content of
        None \<Rightarrow> None
      | Some p \<Rightarrow>
          (case find_idx ''```'' (drop (p + 7) content) of
             None \<Rightarrow> None
           | Some q \<Rightarrow> Some (strip (take q (drop (p + 7) content)))))"
proof -
  have op: "''```'' @ ''json'' = ''```json''" by simp
  have len: "length ''```json'' = 7" by simp
  show ?thesis unfolding extractBlock_def Let_def op len ..
qed

lemma json_indices:
  assumes p: "find_idx ''```json'' content = Some p"
    and q: "find_idx ''```'' (drop (p + 7) content) = Some q"
  shows "str_find content ''```json'' 0 = int p"
    and "str_find content ''```'' (int p + 7) = int p + 7 + int q"
    and "str_slice content (int p + 7) (int p + 7 + int q) = take q (drop (p + 7) content)"
proof -
  from find_idx_SomeD[OF p] obtain rest where rest: "drop p content = ''```json'' @ rest"
    by (auto simp: prefix_def)
  have len: "p + 7 \<le> length content"
  proof -
    have "length (drop p content) = 7 + length rest" by (simp add: rest)
    then show ?thesis by simp
  qed
  show "str_find content ''```json'' 0 = int p"
    by (simp add: str_find_def p)
  have nat7: "nat (int p + 7) = p + 7" by simp
  show "str_find content ''```'' (int p + 7) = int p + 7 + int q"
    using len by (simp add: str_find_def Let_def nat7 q)
  from find_idx_SomeD[OF q] have qle: "q \<le> length content - (p + 7)" by simp
  have b1: "slice_bound content (int p + 7) = p + 7"
    using len by (simp add: slice_bound_def)
  have b2: "slice_bound content (int p + 7 + int q) = p + 7 + q"
    using len qle by (simp add: slice_bound_def)
  show "str_slice content (int p + 7) (int p + 7 + int q) = take q (drop (p + 7) content)"
    by (simp add: str_slice_def b1 b2 drop_take)
qed

lemma json_unterminated_indices:
  assumes p: "find_idx ''```json'' content = Some p"
    and q: "find_idx ''```'' (drop (p + 7) content) = None"
  shows "str_find content ''```'' (int p + 7) = - 1"
proof -
  from find_idx_SomeD[OF p] obtain rest where rest: "drop p content = ''```json'' @ rest"
    by (auto simp: prefix_def)
  have len: "p + 7 \<le> length content"
  proof -
    have "length (drop p content) = 7 + length rest" by (simp add: rest)
    then show ?thesis by simp
  qed
  have nat7: "nat (int p + 7) = p + 7" by simp
  show ?thesis
    using len by (simp add: str_find_def Let_def nat7 q)
qed

lemma extract_metadata_by_block:
  "extract_metadata w content =
     (case extractBlock content ''json'' of
        None \<Rightarrow> Inr (JArr [])
      | Some b \<Rightarrow>
          (case json_loads w b of
             Inr v \<Rightarrow> Inr v
           | Inl e \<Rightarrow> if is_decode_error (Inl e) then Inr (JArr []) else Inl e))"
proof (cases "find_idx ''```json'' content")
  case None
  then show ?thesis
    by (simp add: extract_metadata_def extractBlock_json str_find_from_start Let_def)
next
  case (Some p)
  show ?thesis
  proof (cases "find_idx ''```'' (drop (p + 7) content)")
    case None
    have "str_find content ''```'' (str_find content ''```json'' 0 + 7) = - 1"
      using json_unterminated_indices[OF Some None] by (simp add: str_find_from_start Some)
    then show ?thesis
      using Some None by (simp add: extract_metadata_def extractBlock_json Let_def)
  next
    case q: (Some q)
    note idx = json_indices[OF Some q]
    have block: "extractBlock content ''json'' = Some (strip (take q (drop (p + 7) content)))"
      using Some q by (simp add: extractBlock_json)
    have dec: "(case r of Inl (JSONDecodeError m) \<Rightarrow> Inr (JArr []) | Inl e \<Rightarrow> Inl e | Inr v \<Rightarrow> Inr v)
       = (case r of Inr v \<Rightarrow> Inr v | Inl e \<Rightarrow> if is_decode_error (Inl e) then Inr (JArr []) else Inl e)"
      for r :: "exn + json"
      by (cases r rule: is_decode_error.cases) simp_all
    show ?thesis
      unfolding extract_metadata_def Let_def idx block
      using dec by simp
  qed
qed

lemma extract_code_lacking:
  assumes "extractBlock content ''python'' = None"
  shows "extract_code content = Inl (HTTPException 500 ''Failed to extract code from response'')"
proof (cases "find_idx ''```python'' content")
  case None
  then show ?thesis by (rule extract_code_no_fence)
next
  case (Some p)
  with assms have "find_idx ''```'' (drop (p + 9) content) = None"
    by (simp add: extractBlock_python split: option.splits)
  with Some show ?thesis by (rule extract_code_unterminated)
qed

lemma extract_code_with_marker:
  assumes b: "extractBlock content ''python'' = Some b"
    and m: "find_idx ''from manim import'' b = Some m"
  shows "extract_code content = Inr (drop m b)"
proof -
  from b obtain p q where p: "find_idx ''```python'' content = Some p"
    and q: "find_idx ''```'' (drop (p + 9) content) = Some q"
    and bq: "b = strip (take q (drop (p + 9) content))"
    by (auto simp: extractBlock_python split: option.splits)
  from extract_code_block[OF p q m[unfolded bq]] bq show ?thesis by simp
qed

lemma extract_code_present:
  assumes b: "extractBlock content ''python'' = Some b"
  shows "\<exists>c. extract_code content = Inr c"
proof -
  from b obtain p q where p: "find_idx ''```python'' content = Some p"
    and q: "find_idx ''```'' (drop (p + 9) content) = Some q"
    by (auto simp: extractBlock_python split: option.splits)
  note idx = extract_indices[OF p q]
  show ?thesis
    unfolding extract_code_def Let_def idx(1) idx(2) by simp
qed

lemma generate_code_answer:
  assumes "llm_answers w request content"
  shows "generate_code w request =
     (case extract_code content of
        Inl e \<Rightarrow> Inl (HTTPException 500 (''Failed to generate code: '' @ exn_str (http_str w) e))
      | Inr c \<Rightarrow>
          (case extract_metadata w content of
             Inl e \<Rightarrow> Inl (HTTPException 500 (''Failed to generate code: '' @ exn_str (http_str w) e))
           | Inr md \<Rightarrow> Inr (c, md)))"
  using assms
  by (simp add: llm_answers_def generate_code_def generate_code_try_def Let_def split: sum.splits)

lemma server_generate_code_answer:
  assumes "server_llm_answers w request content"
  shows "server_generate_code w request =
     (case extract_code content of
        Inl e \<Rightarrow> Inl (HTTPException 500 (''Failed to generate code: '' @ exn_str (http_str w) e))
      | Inr c \<Rightarrow> Inr c)"
  using assms
  by (simp add: server_llm_answers_def server_generate_code_def server_generate_code_try_def Let_def
      split: sum.splits)

lemma update_code_answer:
  assumes "update_llm_answers w request content"
  shows "update_code w request = Inr (update_extract content)"
  using assms
  by (simp add: update_llm_answers_def update_code_def update_code_try_def Let_def)

lemma generate_code_lacking:
  assumes "llm_answers w request content" and "extractBlock content ''python'' = None"
  shows "generate_code w request = Inl (HTTPException 500
           (''Failed to generate code: '' @ http_str w 500 ''Failed to extract code from response''))"
  by (simp add: generate_code_answer[OF assms(1)] extract_code_lacking[OF assms(2)])

lemma server_generate_code_lacking:
  assumes "server_llm_answers w request content" and "extractBlock content ''python'' = None"
  shows "server_generate_code w request = Inl (HTTPException 500
           (''Failed to generate code: '' @ http_str w 500 ''Failed to extract code from response''))"
  by (simp add: server_generate_code_answer[OF assms(1)] extract_code_lacking[OF assms(2)])

text \<open>
  C1, as stated, fails: the code returned for a block is not always the stripped text
  between the fences. With a comment before the import line the code starts at the
  import line. With no import line the code starts with the last letter of the tag of
  the opening fence, since the slice starts at \<open>code_start + 8\<close> and the fence has 9
  characters.
\<close>

theorem extraction_differs_from_block:
  "extractBlock commented_answer ''python'' = Some (''# a scene'' @ NL @ ''from manim import *'')
   \<and> generate_code (answering commented_answer) circle_request
       = Inr (''from manim import *'', JArr [])
   \<and> ''from manim import *'' \<noteq> ''# a scene'' @ NL @ ''from manim import *''
   \<and> extractBlock unmarked_answer ''python'' = Some ''x = 1''
   \<and> generate_code (answering unmarked_answer) circle_request = Inr (''n'' @ NL @ ''x = 1'', JArr [])
   \<and> ''n'' @ NL @ ''x = 1'' \<noteq> ''x = 1''"
  by code_simp

text \<open>
  C1, amended: when the response has a python block (the first fence with the tag
  \<open>python\<close> and the next fence after it) and \<open>from manim import\<close> occurs in the stripped
  text \<open>b\<close> of the block, the code extraction gives \<open>b\<close> from the first occurrence of
  \<open>from manim import\<close> on, and so do the endpoints of \<open>server.py\<close> and, when the metadata
  step raises nothing, of \<open>main.py\<close>. When the opening fence occurs and no closing fence
  follows it, the extraction raises its 500 and the endpoints fail with status 500; no
  unterminated block is returned. Nothing is said of a block without
  \<open>from manim import\<close>.
\<close>

theorem python_block_extraction:
  "(extractBlock content ''python'' = Some b \<and> find_idx ''from manim import'' b = Some m \<longrightarrow>
      extract_code content = Inr (drop m b)
      \<and> (server_llm_answers w request content \<longrightarrow>
           server_generate_code w request = Inr (drop m b))
      \<and> (llm_answers w request content \<and> extract_metadata w content = Inr md \<longrightarrow>
           generate_code w request = Inr (drop m b, md)))
   \<and> (find_idx ''```python'' text \<noteq> None \<and> extractBlock text ''python'' = None \<longrightarrow>
      extract_code text = Inl (HTTPException 500 ''Failed to extract code from response'')
      \<and> (server_llm_answers v query text \<longrightarrow>
           (\<exists>d. server_generate_code v query = Inl (HTTPException 500 d)))
      \<and> (llm_answers v query text \<longrightarrow>
           (\<exists>d. generate_code v query = Inl (HTTPException 500 d))))"
proof (intro conjI impI)
  assume a: "extractBlock content ''python'' = Some b \<and> find_idx ''from manim import'' b = Some m"
  then show c: "extract_code content = Inr (drop m b)"
    by (simp add: extract_code_with_marker)
  {
    assume "server_llm_answers w request content"
    from server_generate_code_answer[OF this] show "server_generate_code w request = Inr (drop m b)"
      by (simp add: c)
  }
  {
    assume l: "llm_answers w request content \<and> extract_metadata w content = Inr md"
    then have "llm_answers w request content" ..
    from generate_code_answer[OF this] l show "generate_code w request = Inr (drop m b, md)"
      by (simp add: c)
  }
next
  assume a: "find_idx ''```python'' text \<noteq> None \<and> extractBlock text ''python'' = None"
  then show "extract_code text = Inl (HTTPException 500 ''Failed to extract code from response'')"
    by (simp add: extract_code_lacking)
  {
    assume "server_llm_answers v query text"
    from server_generate_code_lacking[OF this] a
    show "\<exists>d. server_generate_code v query = Inl (HTTPException 500 d)"
      by simp
  }
  {
    assume "llm_answers v query text"
    from generate_code_lacking[OF this] a
    show "\<exists>d. generate_code v query = Inl (HTTPException 500 d)"
      by simp
  }
qed

text \<open>C1, amended, at the answer with a comment and at a text with an open fence only.\<close>

theorem python_block_extraction_witness:
  "extractBlock commented_answer ''python'' = Some (''# a scene'' @ NL @ ''from manim import *'')
   \<and> find_idx ''from manim import'' (''# a scene'' @ NL @ ''from manim import *'') = Some 10
   \<and> server_llm_answers (answering commented_answer) circle_request commented_answer
   \<and> llm_answers (answering commented_answer) circle_request commented_answer
   \<and> extract_metadata (answering commented_answer) commented_answer = Inr (JArr [])
   \<and> extract_code commented_answer = Inr ''from manim import *''
   \<and> server_generate_code (answering commented_answer) circle_request = Inr ''from manim import *''
   \<and> generate_code (answering commented_answer) circle_request = Inr (''from manim import *'', JArr [])
   \<and> find_idx ''```python'' (''intro ```python x = 1'') \<noteq> None
   \<and> extractBlock (''intro ```python x = 1'') ''python'' = None
   \<and> server_llm_answers (answering ''intro ```python x = 1'') circle_request ''intro ```python x = 1''
   \<and> llm_answers (answering ''intro ```python x = 1'') circle_request ''intro ```python x = 1''
   \<and> extract_code ''intro ```python x = 1''
       = Inl (HTTPException 500 ''Failed to extract code from response'')
   \<and> (\<exists>d. server_generate_code (answering ''intro ```python x = 1'') circle_request
            = Inl (HTTPException 500 d))
   \<and> (\<exists>d. generate_code (answering ''intro ```python x = 1'') circle_request
            = Inl (HTTPException 500 d))"
proof -
  have h1: "extractBlock commented_answer ''python'' = Some (''# a scene'' @ NL @ ''from manim import *'')
     \<and> find_idx ''from manim import'' (''# a scene'' @ NL @ ''from manim import *'') = Some 10"
    by code_simp
  have h2: "server_llm_answers (answering commented_answer) circle_request commented_answer"
    by (simp add: server_llm_answers_def answering_def plain_world_def)
  have h3: "llm_answers (answering commented_answer) circle_request commented_answer
     \<and> extract_metadata (answering commented_answer) commented_answer = Inr (JArr [])"
    by code_simp
  have h4: "find_idx ''```python'' (''intro ```python x = 1'') \<noteq> None
     \<and> extractBlock (''intro ```python x = 1'') ''python'' = None"
    by code_simp
  have h5: "server_llm_answers (answering ''intro ```python x = 1'') circle_request ''intro ```python x = 1''"
    by (simp add: server_llm_answers_def answering_def plain_world_def)
  have h6: "llm_answers (answering ''intro ```python x = 1'') circle_request ''intro ```python x = 1''"
    by (simp add: llm_answers_def answering_def plain_world_def)
  have d: "drop 10 (''# a scene'' @ NL @ ''from manim import *'') = ''from manim import *''"
    by (simp add: NL_def)
  show ?thesis
    using h1 h2 h3 h4 h5 h6
      python_block_extraction [of commented_answer "''# a scene'' @ NL @ ''from manim import *''" 10
        "answering commented_answer" circle_request "JArr []" "''intro ```python x = 1''"
        "answering ''intro ```python x = 1''" circle_request]
    unfolding d by blast
qed

lemma drop_length_append: "drop (length xs) (xs @ ys) = ys"
  by simp

lemma extractBlock_decomposition:
  assumes "find_idx (''```'' @ tag) (pre @ ''```'' @ tag @ inner @ ''```'' @ post) = Some (length pre)"
    and "find_idx ''```'' (inner @ ''```'' @ post) = Some (length inner)"
  shows "extractBlock (pre @ ''```'' @ tag @ inner @ ''```'' @ post) tag = Some (strip inner)"
proof -
  have d: "drop (length pre + length (''```'' @ tag))
                 (pre @ ''```'' @ tag @ inner @ ''```'' @ post) = inner @ ''```'' @ post"
    using drop_length_append [of "pre @ ''```'' @ tag" "inner @ ''```'' @ post"]
    by (simp only: length_append append_assoc)
  show ?thesis
    unfolding extractBlock_def Let_def assms(1) option.case d assms(2)
    by simp
qed

lemma no_fence_no_python_fence:
  assumes "find_idx ''```'' content = None"
  shows "find_idx ''```python'' content = None"
proof (cases "find_idx ''```python'' content")
  case None
  then show ?thesis .
next
  case (Some p)
  from find_idx_SomeD[OF Some] have "prefix ''```python'' (drop p content)" "p \<le> length content"
    by simp_all
  moreover have "prefix ''```'' ''```python''" by (simp add: prefix_def)
  ultimately have "prefix ''```'' (drop p content)" "p \<le> length content"
    using prefix_order.trans by blast+
  with find_idx_NoneD[OF assms] show ?thesis by blast
qed

lemma update_extract_lacking:
  assumes "extractBlock content ''python'' = None"
  shows "update_extract content = strip content"
proof (cases "find_idx ''```python'' content")
  case None
  then show ?thesis
    by (simp add: update_extract_def str_find_from_start Let_def)
next
  case (Some p)
  with assms have "find_idx ''```'' (drop (p + 9) content) = None"
    by (simp add: extractBlock_python split: option.splits)
  from unterminated_indices[OF Some this] show ?thesis
    unfolding update_extract_def Let_def by simp
qed

text \<open>
  C3: a response without the python block should fail with status 500 and the fixed
  detail \<open>Failed to extract code from response\<close>, unmodified. The endpoint raises that
  exception inside its own \<open>try\<close> statement, whose handler catches it and raises a new
  one: the detail the client receives is \<open>Failed to generate code:\<close> followed by the
  text of the caught exception, with the current framework and with the older one.
\<close>

theorem missing_block_detail_is_wrapped:
  "generate_code (answering ''Sorry, I cannot help.'') circle_request
     = Inl (HTTPException 500 ''Failed to generate code: 500: Failed to extract code from response'')
   \<and> generate_code ((answering ''Sorry, I cannot help.'')\<lparr>http_str := starlette_str_old\<rparr>)
        circle_request
     = Inl (HTTPException 500 ''Failed to generate code: '')"
  by code_simp

text \<open>
  C5: when the response of the LLM to \<open>update_code\<close> has no python block, the endpoint
  returns the whole response, stripped, as the code, and does not fail; a response
  without any fence is such a response.
\<close>

theorem update_code_lenient:
  "(extractBlock content ''python'' = None \<and> update_llm_answers w request content \<longrightarrow>
      update_code w request = Inr (strip content))
   \<and> (find_idx ''```'' content = None \<longrightarrow> extractBlock content ''python'' = None)"
proof (intro conjI impI)
  assume a: "extractBlock content ''python'' = None \<and> update_llm_answers w request content"
  then have "update_llm_answers w request content" ..
  from update_code_answer[OF this] a show "update_code w request = Inr (strip content)"
    by (simp add: update_extract_lacking)
next
  assume "find_idx ''```'' content = None"
  then have "find_idx ''```python'' content = None" by (rule no_fence_no_python_fence)
  then show "extractBlock content ''python'' = None"
    by (simp add: extractBlock_python)
qed

text \<open>C5 at a response with no fence.\<close>

theorem update_code_lenient_witness:
  "extractBlock (''  x = 2'' @ NL) ''python'' = None
   \<and> find_idx ''```'' (''  x = 2'' @ NL) = None
   \<and> update_llm_answers (answering (''  x = 2'' @ NL)) edit_request (''  x = 2'' @ NL)
   \<and> update_code (answering (''  x = 2'' @ NL)) edit_request = Inr ''x = 2''"
proof -
  have h: "extractBlock (''  x = 2'' @ NL) ''python'' = None
           \<and> find_idx ''```'' (''  x = 2'' @ NL) = None"
    by code_simp
  have l: "update_llm_answers (answering (''  x = 2'' @ NL)) edit_request (''  x = 2'' @ NL)"
    by (simp add: update_llm_answers_def answering_def plain_world_def)
  have s: "strip (''  x = 2'' @ NL) = ''x = 2''" by code_simp
  show ?thesis
    using h l update_code_lenient [of "''  x = 2'' @ NL" "answering (''  x = 2'' @ NL)" edit_request]
    unfolding s by blast
qed

lemma deep_answer_given:
  "llm_answers deep_world circle_request deep_json_answer"
  by code_simp

lemma deep_answer_python_block:
  "extractBlock deep_json_answer ''python'' = Some (''# a scene'' @ NL @ ''from manim import *'')"
  by code_simp

lemma deep_answer_json_block:
  "extractBlock deep_json_answer ''json'' = Some (replicate 1000 (CHR ''[''))"
  by code_simp

lemma deep_text_no_json:
  "is_decode_error (loads_fragment (replicate 1000 (CHR ''['')))"
  by code_simp

lemma deep_text_raises:
  "json_loads deep_world (replicate 1000 (CHR ''[''))
     = Inl (PyError
         ''maximum recursion depth exceeded while decoding a JSON array from a unicode string'')"
  by code_simp

lemma deep_answer_fails:
  "generate_code deep_world circle_request
     = Inl (HTTPException 500
         ''Failed to generate code: maximum recursion depth exceeded while decoding a JSON array from a unicode string'')"
  by code_simp

text \<open>
  C9, as stated, fails: the endpoint catches a \<open>JSONDecodeError\<close> of the decoder and no
  other exception. The response below has the python block, and its json block holds
  1000 opening brackets: a text that is no JSON (the scanner without a limit finds no
  value in it), on which the decoder raises a \<open>RecursionError\<close>. That exception reaches
  the handler of the endpoint, and the request fails with status 500 although the code
  block is there.
\<close>

theorem deep_metadata_fails_request:
  "llm_answers deep_world circle_request deep_json_answer
   \<and> extractBlock deep_json_answer ''python'' = Some (''# a scene'' @ NL @ ''from manim import *'')
   \<and> extractBlock deep_json_answer ''json'' = Some (replicate 1000 (CHR ''[''))
   \<and> is_decode_error (loads_fragment (replicate 1000 (CHR ''['')))
   \<and> json_loads deep_world (replicate 1000 (CHR ''[''))
       = Inl (PyError
           ''maximum recursion depth exceeded while decoding a JSON array from a unicode string'')
   \<and> generate_code deep_world circle_request
       = Inl (HTTPException 500
           ''Failed to generate code: maximum recursion depth exceeded while decoding a JSON array from a unicode string'')"
  by (intro conjI deep_answer_given deep_answer_python_block deep_answer_json_block
      deep_text_no_json deep_text_raises deep_answer_fails)

text \<open>
  C9, amended: when the response has the python block, and its json block is absent or
  has no closing fence (\<open>extractBlock\<close> gives nothing for both) or holds a text on which
  the decoder raises a \<open>JSONDecodeError\<close>, \<open>generate_code\<close> succeeds with the extracted
  code and the empty sequence as metadata. A text on which the decoder raises another
  exception is not covered.
\<close>

theorem metadata_defaults_to_empty:
  "llm_answers w request content \<and> extractBlock content ''python'' = Some b
   \<and> (extractBlock content ''json'' = None
       \<or> (\<exists>j. extractBlock content ''json'' = Some j \<and> is_decode_error (json_loads w j)))
   \<longrightarrow> (\<exists>c. extract_code content = Inr c \<and> generate_code w request = Inr (c, JArr []))"
proof
  assume a: "llm_answers w request content \<and> extractBlock content ''python'' = Some b
   \<and> (extractBlock content ''json'' = None
       \<or> (\<exists>j. extractBlock content ''json'' = Some j \<and> is_decode_error (json_loads w j)))"
  then have l: "llm_answers w request content" and b: "extractBlock content ''python'' = Some b"
    by simp_all
  from extract_code_present[OF b] obtain c where c: "extract_code content = Inr c" ..
  from a have "extract_metadata w content = Inr (JArr [])"
  proof (elim conjE disjE exE)
    assume "extractBlock content ''json'' = None"
    then show ?thesis by (simp add: extract_metadata_by_block)
  next
    fix j assume j: "extractBlock content ''json'' = Some j" "is_decode_error (json_loads w j)"
    then obtain e where "json_loads w j = Inl e" by (cases "json_loads w j") auto
    with j show ?thesis by (simp add: extract_metadata_by_block)
  qed
  with generate_code_answer[OF l] c show "\<exists>c. extract_code content = Inr c \<and> generate_code w request = Inr (c, JArr [])"
    by simp
qed

text \<open>
  C9, amended, at three answers: without a json block, with a json fence that is not
  closed, and with a json block on whose text the decoder raises a \<open>JSONDecodeError\<close>.
\<close>

theorem metadata_defaults_to_empty_witness:
  "llm_answers (answering commented_answer) circle_request commented_answer
   \<and> extractBlock commented_answer ''python'' = Some (''# a scene'' @ NL @ ''from manim import *'')
   \<and> extractBlock commented_answer ''json'' = None
   \<and> generate_code (answering commented_answer) circle_request
       = Inr (''from manim import *'', JArr [])
   \<and> llm_answers (answering unterminated_json_answer) circle_request unterminated_json_answer
   \<and> extractBlock unterminated_json_answer ''python''
       = Some (''# a scene'' @ NL @ ''from manim import *'')
   \<and> find_idx ''```json'' unterminated_json_answer = Some 44
   \<and> extractBlock unterminated_json_answer ''json'' = None
   \<and> generate_code (answering unterminated_json_answer) circle_request
       = Inr (''from manim import *'', JArr [])
   \<and> llm_answers (answering invalid_json_answer) circle_request invalid_json_answer
   \<and> extractBlock invalid_json_answer ''python''
       = Some (''# a scene'' @ NL @ ''from manim import *'')
   \<and> extractBlock invalid_json_answer ''json'' = Some ''[1,''
   \<and> is_decode_error (json_loads (answering invalid_json_answer) ''[1,'')
   \<and> generate_code (answering invalid_json_answer) circle_request
       = Inr (''from manim import *'', JArr [])"
proof -
  have a: "llm_answers (answering commented_answer) circle_request commented_answer
   \<and> extractBlock commented_answer ''python'' = Some (''# a scene'' @ NL @ ''from manim import *'')
   \<and> extractBlock commented_answer ''json'' = None
   \<and> extract_code commented_answer = Inr ''from manim import *''"
    by code_simp
  have b: "llm_answers (answering unterminated_json_answer) circle_request unterminated_json_answer
   \<and> extractBlock unterminated_json_answer ''python''
       = Some (''# a scene'' @ NL @ ''from manim import *'')
   \<and> find_idx ''```json'' unterminated_json_answer = Some 44
   \<and> extractBlock unterminated_json_answer ''json'' = None
   \<and> extract_code unterminated_json_answer = Inr ''from manim import *''"
    by code_simp
  have c: "llm_answers (answering invalid_json_answer) circle_request invalid_json_answer
   \<and> extractBlock invalid_json_answer ''python''
       = Some (''# a scene'' @ NL @ ''from manim import *'')
   \<and> extractBlock invalid_json_answer ''json'' = Some ''[1,''
   \<and> is_decode_error (json_loads (answering invalid_json_answer) ''[1,'')
   \<and> extract_code invalid_json_answer = Inr ''from manim import *''"
    by code_simp
  have ra: "generate_code (answering commented_answer) circle_request
       = Inr (''from manim import *'', JArr [])"
    using a metadata_defaults_to_empty [of "answering commented_answer" circle_request
        commented_answer "''# a scene'' @ NL @ ''from manim import *''"]
    by auto
  have rb: "generate_code (answering unterminated_json_answer) circle_request
       = Inr (''from manim import *'', JArr [])"
    using b metadata_defaults_to_empty [of "answering unterminated_json_answer" circle_request
        unterminated_json_answer "''# a scene'' @ NL @ ''from manim import *''"]
    by auto
  have rc: "generate_code (answering invalid_json_answer) circle_request
       = Inr (''from manim import *'', JArr [])"
    using c metadata_defaults_to_empty [of "answering invalid_json_answer" circle_request
        invalid_json_answer "''# a scene'' @ NL @ ''from manim import *''"]
    by auto
  from a b c ra rb rc show ?thesis by blast
qed

text \<open>
  C4, as stated, fails: \<open>generate_code\<close> returns the decoded metadata as it is. For a
  response whose metadata has an id twice, a type outside the three values, and a
  negative start and duration, it returns just that.
\<close>

theorem metadata_invariant_not_enforced:
  "generate_code (answering unchecked_answer) circle_request
     = Inr (''from manim import *'', unchecked_metadata)
   \<and> \<not> metadata_invariant unchecked_metadata"
  by code_simp

text \<open>
  C4, amended: the metadata \<open>generate_code\<close> returns is the empty sequence when the
  response has no json block or the decoder raises an error on it, and else the value
  the decoder gives for the stripped text of the block, unchecked. So it satisfies the
  invariant exactly when the decoded value does; the empty sequence satisfies it.
\<close>

theorem metadata_is_decoded_block:
  "llm_answers w request content \<and> generate_code w request = Inr (c, md) \<longrightarrow>
     md = (case extractBlock content ''json'' of
             None \<Rightarrow> JArr []
           | Some j \<Rightarrow> (case json_loads w j of Inr v \<Rightarrow> v | Inl e \<Rightarrow> JArr []))
     \<and> (metadata_invariant md \<longleftrightarrow>
          (case extractBlock content ''json'' of
             None \<Rightarrow> True
           | Some j \<Rightarrow> (case json_loads w j of Inr v \<Rightarrow> metadata_invariant v | Inl e \<Rightarrow> True)))"
proof
  assume a: "llm_answers w request content \<and> generate_code w request = Inr (c, md)"
  then have l: "llm_answers w request content" ..
  have empty: "metadata_invariant (JArr [])"
    by (simp add: metadata_invariant_def)
  from generate_code_answer[OF l] a have "extract_metadata w content = Inr md"
    by (auto split: sum.splits)
  then have md: "md = (case extractBlock content ''json'' of
             None \<Rightarrow> JArr []
           | Some j \<Rightarrow> (case json_loads w j of Inr v \<Rightarrow> v | Inl e \<Rightarrow> JArr []))"
    by (auto simp: extract_metadata_by_block split: option.splits sum.splits if_splits)
  show "md = (case extractBlock content ''json'' of
             None \<Rightarrow> JArr []
           | Some j \<Rightarrow> (case json_loads w j of Inr v \<Rightarrow> v | Inl e \<Rightarrow> JArr []))
     \<and> (metadata_invariant md \<longleftrightarrow>
          (case extractBlock content ''json'' of
             None \<Rightarrow> True
           | Some j \<Rightarrow> (case json_loads w j of Inr v \<Rightarrow> metadata_invariant v | Inl e \<Rightarrow> True)))"
    using md empty by (auto split: option.splits sum.splits)
qed

text \<open>C4, amended, at the round trip scenario of the specification.\<close>

theorem metadata_is_decoded_block_witness:
  "llm_answers (answering round_trip_answer) circle_request round_trip_answer
   \<and> generate_code (answering round_trip_answer) circle_request
       = Inr (''from manim import *'' @ NL @ ''font_size = 48'', round_trip_metadata)
   \<and> round_trip_metadata
       = (case extractBlock round_trip_answer ''json'' of
            None \<Rightarrow> JArr []
          | Some j \<Rightarrow>
              (case json_loads (answering round_trip_answer) j of
                 Inr v \<Rightarrow> v
               | Inl e \<Rightarrow> JArr []))
   \<and> metadata_invariant round_trip_metadata"
proof -
  have h: "llm_answers (answering round_trip_answer) circle_request round_trip_answer
   \<and> generate_code (answering round_trip_answer) circle_request
       = Inr (''from manim import *'' @ NL @ ''font_size = 48'', round_trip_metadata)"
    by code_simp
  have i: "metadata_invariant round_trip_metadata"
    by code_simp
  from h i metadata_is_decoded_block [of "answering round_trip_answer" circle_request
      round_trip_answer "''from manim import *'' @ NL @ ''font_size = 48''" round_trip_metadata]
  show ?thesis by blast
qed

section \<open>Properties of the rendering\<close>

lemma scene_match_at_nonempty: "scene_match_at s = Some name \<Longrightarrow> name \<noteq> []"
  by (auto simp: scene_match_at_def Let_def split: if_splits)

lemma re_search_scene_nonempty: "re_search_scene s = Some name \<Longrightarrow> name \<noteq> []"
proof (induction s)
  case Nil
  then show ?case by (simp add: scene_match_at_nonempty)
next
  case (Cons c cs)
  then show ?case
    by (cases "scene_match_at (c # cs)") (auto simp: scene_match_at_nonempty)
qed

lemma generate_animation_in_started:
  assumes "mkdtemp w = Inr dir"
    and "write_text w (path_join dir ''animation.py'') (code request) = None"
    and "re_search_scene (code request) = Some name"
  shows "generate_animation_in output_dir w request =
     (case generate_animation_try w output_dir dir (path_join dir ''animation.py'') name request of
        Inl e \<Rightarrow> Inl (HTTPException 500 (''Animation generation failed: '' @ exn_str (http_str w) e))
      | Inr r \<Rightarrow> Inr r)"
  using assms re_search_scene_nonempty[OF assms(3)]
  by (simp add: generate_animation_in_def Let_def)

lemma read_duration_absent:
  "json_file w (path_join dir ''animation.json'') = None \<Longrightarrow> read_duration w dir = Inr (JInt 0)"
  by (simp add: read_duration_def)

lemma new_AnimationResponse_zero:
  "new_AnimationResponse w path (JInt 0) = Inr \<lparr>output_path = path, duration = 0\<rparr>"
  by (simp add: new_AnimationResponse_def)

lemma try_duration_zero:
  assumes "json_file w (path_join dir ''animation.json'') = None"
    and "generate_animation_try w out dir file name request = Inr r"
  shows "duration r = 0"
  using assms
  by (auto simp: generate_animation_try_def Let_def read_duration_absent new_AnimationResponse_zero
      split: sum.splits if_splits list.splits option.splits)

lemma endpoint_duration_zero:
  assumes "mkdtemp w = Inr dir"
    and "json_file w (path_join dir ''animation.json'') = None"
    and "generate_animation_in out w request = Inr r"
  shows "duration r = 0"
proof -
  from assms(1,3) obtain name where
    "generate_animation_try w out dir (path_join dir ''animation.py'') name request = Inr r"
    by (auto simp: generate_animation_in_def Let_def split: option.splits if_splits sum.splits)
  with assms(2) show ?thesis by (rule try_duration_zero)
qed

text \<open>
  C2, as stated, fails: when the renderer exits with 1 after writing \<open>boom\<close> to its
  standard error, the detail the client receives is not \<open>boom\<close>. The endpoint puts
  \<open>Manim error:\<close> before the text, and its handler wraps the exception once more.
\<close>

theorem renderer_error_not_verbatim:
  "generate_animation failing_renderer scene_request
     = Inl (HTTPException 500 ''Animation generation failed: 500: Manim error: boom'')
   \<and> ''Animation generation failed: 500: Manim error: boom'' \<noteq> ''boom''
   \<and> generate_animation (failing_renderer\<lparr>http_str := starlette_str_old\<rparr>) scene_request
     = Inl (HTTPException 500 ''Animation generation failed: '')
   \<and> ''Animation generation failed: '' \<noteq> ''boom''"
  by code_simp

text \<open>
  C2, amended: when the renderer exits with a code other than 0, the body of the
  endpoint raises an exception of status 500 whose detail is \<open>Manim error:\<close> followed by
  the captured standard error, verbatim, and the endpoint (of \<open>main.py\<close> and of
  \<open>server.py\<close>) fails with status 500. The premises say that the endpoint has come to
  the renderer: the scratch directory exists, the code is written, a scene class is
  found, and the command has run.
\<close>

theorem renderer_error_detail:
  assumes "mkdtemp w = Inr dir"
    and "write_text w (path_join dir ''animation.py'') (code request) = None"
    and "re_search_scene (code request) = Some name"
    and "run w (''manim '' @ dict_get quality_settings (quality request) ''-qm''
                @ '' -o animation '' @ path_join dir ''animation.py'' @ '' '' @ name) dir
           = Inr result"
    and "returncode result \<noteq> 0"
  shows "generate_animation_try w output_dir dir (path_join dir ''animation.py'') name request
           = Inl (HTTPException 500 (''Manim error: '' @ stderr result))
         \<and> (\<exists>d. generate_animation w request = Inl (HTTPException 500 d))
         \<and> (\<exists>d. server_generate_animation w request = Inl (HTTPException 500 d))"
proof -
  have t: "generate_animation_try w out dir (path_join dir ''animation.py'') name request
           = Inl (HTTPException 500 (''Manim error: '' @ stderr result))" for out
    using assms(4,5) by (simp add: generate_animation_try_def Let_def)
  show ?thesis
    using t by (simp add: generate_animation_def server_generate_animation_def
        generate_animation_in_started[OF assms(1-3)])
qed

text \<open>
  C2, amended, at the renderer that exits with 1.
\<close>

theorem renderer_error_detail_witness:
  "mkdtemp failing_renderer = Inr ''/tmp/tmpabc''
   \<and> write_text failing_renderer (path_join ''/tmp/tmpabc'' ''animation.py'') (code scene_request) = None
   \<and> re_search_scene (code scene_request) = Some ''Foo''
   \<and> run failing_renderer ''manim -ql -o animation /tmp/tmpabc/animation.py Foo'' ''/tmp/tmpabc''
       = Inr \<lparr>returncode = 1, stdout = [], stderr = ''boom''\<rparr>
   \<and> returncode \<lparr>returncode = 1, stdout = [], stderr = ''boom''\<rparr> \<noteq> 0
   \<and> generate_animation_try failing_renderer ''outputs'' ''/tmp/tmpabc''
        (path_join ''/tmp/tmpabc'' ''animation.py'') ''Foo'' scene_request
       = Inl (HTTPException 500 ''Manim error: boom'')
   \<and> (\<exists>d. generate_animation failing_renderer scene_request = Inl (HTTPException 500 d))
   \<and> (\<exists>d. server_generate_animation failing_renderer scene_request = Inl (HTTPException 500 d))"
proof -
  have h: "mkdtemp failing_renderer = Inr ''/tmp/tmpabc''"
    "write_text failing_renderer (path_join ''/tmp/tmpabc'' ''animation.py'') (code scene_request) = None"
    "re_search_scene (code scene_request) = Some ''Foo''"
    "run failing_renderer ''manim -ql -o animation /tmp/tmpabc/animation.py Foo'' ''/tmp/tmpabc''
       = Inr \<lparr>returncode = 1, stdout = [], stderr = ''boom''\<rparr>"
    "returncode \<lparr>returncode = 1, stdout = [], stderr = ''boom''\<rparr> \<noteq> 0"
    by code_simp+
  have e: "''manim '' @ dict_get quality_settings (quality scene_request) ''-qm''
            @ '' -o animation '' @ path_join ''/tmp/tmpabc'' ''animation.py'' @ '' '' @ ''Foo''
           = ''manim -ql -o animation /tmp/tmpabc/animation.py Foo''"
    by code_simp
  have s: "''Manim error: '' @ stderr \<lparr>returncode = 1, stdout = [], stderr = ''boom''\<rparr>
           = ''Manim error: boom''"
    by simp
  show ?thesis
    using h renderer_error_detail [of failing_renderer "''/tmp/tmpabc''" scene_request "''Foo''"
        "\<lparr>returncode = 1, stdout = [], stderr = ''boom''\<rparr>" "''outputs''",
        unfolded e s, OF h]
    by blast
qed

text \<open>
  C8: when no \<open>animation.json\<close> exists in the scratch directory after the render, reading
  the duration raises nothing and gives 0; every response the endpoint (of \<open>main.py\<close> and
  of \<open>server.py\<close>) returns has the duration 0; and when the other steps succeed (the code
  is written, a scene class is found, the renderer exits with 0, an output file is
  found and moved), the endpoint returns the response with the moved file and the
  duration 0.
\<close>

theorem duration_defaults_to_zero:
  assumes "mkdtemp w = Inr dir"
    and "json_file w (path_join dir ''animation.json'') = None"
  shows "read_duration w dir = Inr (JInt 0)
     \<and> (generate_animation w request = Inr r \<longrightarrow> duration r = 0)
     \<and> (server_generate_animation w request = Inr r \<longrightarrow> duration r = 0)
     \<and> (write_text w (path_join dir ''animation.py'') (code request) = None
         \<and> re_search_scene (code request) = Some name
         \<and> run w (''manim '' @ dict_get quality_settings (quality request) ''-qm''
                    @ '' -o animation '' @ path_join dir ''animation.py'' @ '' '' @ name) dir
             = Inr result
         \<and> returncode result = 0
         \<and> rglob w dir (''animation*.'' @ format request) = file # files
         \<and> mkdir w ''outputs'' = None
         \<and> move w file (path_join ''outputs'' (path_name file)) = None
         \<longrightarrow> generate_animation w request
               = Inr \<lparr>output_path = path_join ''outputs'' (path_name file), duration = 0\<rparr>)"
proof (intro conjI impI)
  show "read_duration w dir = Inr (JInt 0)"
    using assms(2) by (rule read_duration_absent)
next
  assume "generate_animation w request = Inr r"
  then have "generate_animation_in ''outputs'' w request = Inr r"
    by (simp add: generate_animation_def)
  with assms show "duration r = 0" by (rule endpoint_duration_zero)
next
  assume "server_generate_animation w request = Inr r"
  then have "generate_animation_in ''outputs/temp'' w request = Inr r"
    by (simp add: server_generate_animation_def)
  with assms show "duration r = 0" by (rule endpoint_duration_zero)
next
  assume a: "write_text w (path_join dir ''animation.py'') (code request) = None
         \<and> re_search_scene (code request) = Some name
         \<and> run w (''manim '' @ dict_get quality_settings (quality request) ''-qm''
                    @ '' -o animation '' @ path_join dir ''animation.py'' @ '' '' @ name) dir
             = Inr result
         \<and> returncode result = 0
         \<and> rglob w dir (''animation*.'' @ format request) = file # files
         \<and> mkdir w ''outputs'' = None
         \<and> move w file (path_join ''outputs'' (path_name file)) = None"
  then have started: "write_text w (path_join dir ''animation.py'') (code request) = None"
    "re_search_scene (code request) = Some name"
    by simp_all
  have "generate_animation_try w ''outputs'' dir (path_join dir ''animation.py'') name request
          = Inr \<lparr>output_path = path_join ''outputs'' (path_name file), duration = 0\<rparr>"
    using a assms(2)
    by (simp add: generate_animation_try_def Let_def read_duration_absent
        new_AnimationResponse_zero)
  then show "generate_animation w request
               = Inr \<lparr>output_path = path_join ''outputs'' (path_name file), duration = 0\<rparr>"
    by (simp add: generate_animation_def generate_animation_in_started[OF assms(1) started])
qed

text \<open>
  C8 at a world whose renderer leaves a video and no \<open>animation.json\<close>.
\<close>

theorem duration_defaults_to_zero_witness:
  "mkdtemp rendering_world = Inr ''/tmp/tmpabc''
   \<and> json_file rendering_world (path_join ''/tmp/tmpabc'' ''animation.json'') = None
   \<and> write_text rendering_world (path_join ''/tmp/tmpabc'' ''animation.py'') (code scene_request) = None
   \<and> re_search_scene (code scene_request) = Some ''Foo''
   \<and> run rendering_world ''manim -ql -o animation /tmp/tmpabc/animation.py Foo'' ''/tmp/tmpabc''
       = Inr \<lparr>returncode = 0, stdout = [], stderr = []\<rparr>
   \<and> rglob rendering_world ''/tmp/tmpabc'' ''animation*.mp4''
       = [''/tmp/tmpabc/media/videos/animation/480p15/animation.mp4'']
   \<and> mkdir rendering_world ''outputs'' = None
   \<and> move rendering_world ''/tmp/tmpabc/media/videos/animation/480p15/animation.mp4''
        ''outputs/animation.mp4'' = None
   \<and> read_duration rendering_world ''/tmp/tmpabc'' = Inr (JInt 0)
   \<and> generate_animation rendering_world scene_request
       = Inr \<lparr>output_path = ''outputs/animation.mp4'', duration = 0\<rparr>"
proof -
  have h: "mkdtemp rendering_world = Inr ''/tmp/tmpabc''
   \<and> json_file rendering_world (path_join ''/tmp/tmpabc'' ''animation.json'') = None
   \<and> write_text rendering_world (path_join ''/tmp/tmpabc'' ''animation.py'') (code scene_request) = None
   \<and> re_search_scene (code scene_request) = Some ''Foo''
   \<and> run rendering_world ''manim -ql -o animation /tmp/tmpabc/animation.py Foo'' ''/tmp/tmpabc''
       = Inr \<lparr>returncode = 0, stdout = [], stderr = []\<rparr>
   \<and> rglob rendering_world ''/tmp/tmpabc'' ''animation*.mp4''
       = [''/tmp/tmpabc/media/videos/animation/480p15/animation.mp4'']
   \<and> mkdir rendering_world ''outputs'' = None
   \<and> move rendering_world ''/tmp/tmpabc/media/videos/animation/480p15/animation.mp4''
        ''outputs/animation.mp4'' = None"
    by code_simp
  have e: "''manim '' @ dict_get quality_settings (quality scene_request) ''-qm''
            @ '' -o animation '' @ path_join ''/tmp/tmpabc'' ''animation.py'' @ '' '' @ ''Foo''
           = ''manim -ql -o animation /tmp/tmpabc/animation.py Foo''"
    "''animation*.'' @ format scene_request = ''animation*.mp4''"
    "path_join ''outputs'' (path_name ''/tmp/tmpabc/media/videos/animation/480p15/animation.mp4'')
       = ''outputs/animation.mp4''"
    "returncode \<lparr>returncode = 0, stdout = [], stderr = []\<rparr> = 0"
    by code_simp+
  show ?thesis
    using h duration_defaults_to_zero [of rendering_world "''/tmp/tmpabc''" scene_request
        "\<lparr>output_path = ''outputs/animation.mp4'', duration = 0\<rparr>" "''Foo''"
        "\<lparr>returncode = 0, stdout = [], stderr = []\<rparr>"
        "''/tmp/tmpabc/media/videos/animation/480p15/animation.mp4''" "[]"]
    unfolding e by blast
qed

end
